theory Spec2Isabelle
  imports Main
begin


section \<open>The schema of the migration: table, enum, constraints\<close>

text \<open>
  \<^verbatim>\<open>supabase/migrations/20250801050644_steep_morning.sql\<close> declares the enum
  \<^verbatim>\<open>user_role\<close>, the table \<^verbatim>\<open>profiles\<close>, five row-level-security policies and two
  triggers. A uuid is kept as its text, a \<^verbatim>\<open>TIMESTAMPTZ\<close> as a number of microseconds.
\<close>

type_synonym uuid = string
type_synonym timestamptz = int

text \<open>\<^verbatim>\<open>CREATE TYPE user_role AS ENUM ('user', 'admin', 'instructor')\<close>\<close>

datatype user_role = Role_user | Role_admin | Role_instructor

fun role_label :: "user_role \<Rightarrow> string" where
  "role_label Role_user = ''user''"
| "role_label Role_admin = ''admin''"
| "role_label Role_instructor = ''instructor''"

text \<open>The cast \<^verbatim>\<open>text::user_role\<close>: any other label is an error of the cast.\<close>

definition cast_user_role :: "string \<Rightarrow> user_role option" where
  "cast_user_role s =
     (if s = ''user'' then Some Role_user
      else if s = ''admin'' then Some Role_admin
      else if s = ''instructor'' then Some Role_instructor
      else None)"

text \<open>A row of \<^verbatim>\<open>profiles\<close>. The columns declared \<^verbatim>\<open>NOT NULL\<close> have no option type.\<close>

record profile =
  p_id :: uuid
  p_email :: string
  p_full_name :: "string option"
  p_avatar_url :: "string option"
  p_role :: user_role
  p_created_at :: timestamptz
  p_updated_at :: timestamptz

text \<open>
  A row of \<^verbatim>\<open>auth.users\<close>, as far as the migration reads it: \<^verbatim>\<open>NEW.id\<close>,
  \<^verbatim>\<open>NEW.email\<close> and the text members of \<^verbatim>\<open>NEW.raw_user_meta_data\<close> (what
  \<^verbatim>\<open>->>\<close> returns for a key; an absent key is NULL).
\<close>

record auth_user =
  u_id :: uuid
  u_email :: "string option"
  u_raw_user_meta_data :: "(string \<times> string) list"

record database =
  auth_users :: "auth_user list"
  profiles :: "profile list"

definition empty_database :: database where
  "empty_database = \<lparr>auth_users = [], profiles = []\<rparr>"

text \<open>The errors the database layer reports (with their SQLSTATE or PostgREST code).\<close>

datatype pg_error =
    Rls_violation                 \<comment> \<open>42501: new row violates row-level security policy\<close>
  | Policy_recursion              \<comment> \<open>42P17: infinite recursion detected in policy for relation profiles\<close>
  | Unique_violation string      \<comment> \<open>23505, with the constraint's name\<close>
  | Foreign_key_violation         \<comment> \<open>23503\<close>
  | Not_null_violation string     \<comment> \<open>23502, with the column\<close>
  | Invalid_enum_input string     \<comment> \<open>22P02: invalid input value for enum user_role\<close>
  | Not_single_row                \<comment> \<open>PGRST116: \<^verbatim>\<open>.single()\<close> on zero or several rows\<close>

text \<open>
  The table constraints: \<^verbatim>\<open>id UUID PRIMARY KEY REFERENCES auth.users(id)\<close> and
  \<^verbatim>\<open>email TEXT UNIQUE NOT NULL\<close>. The result is the violation reported, if any.
\<close>

definition profiles_constraints :: "auth_user list \<Rightarrow> profile list \<Rightarrow> pg_error option" where
  "profiles_constraints users tbl =
     (if \<not> distinct (map p_id tbl) then Some (Unique_violation ''profiles_pkey'')
      else if \<not> distinct (map p_email tbl) then Some (Unique_violation ''profiles_email_key'')
      else if \<not> set (map p_id tbl) \<subseteq> set (map u_id users) then Some Foreign_key_violation
      else None)"

text \<open>
  The values an \<^verbatim>\<open>INSERT INTO profiles (id, email, full_name, role)\<close> supplies. Both
  inserting paths (the trigger and the client) give these four columns; \<^verbatim>\<open>avatar_url\<close>
  is NULL and the two timestamps take their \<^verbatim>\<open>DEFAULT NOW()\<close>.
\<close>

record profile_insert =
  i_id :: uuid
  i_email :: "string option"
  i_full_name :: "string option"
  i_role :: user_role

definition insert_row ::
  "auth_user list \<Rightarrow> profile list \<Rightarrow> timestamptz \<Rightarrow> profile_insert \<Rightarrow> pg_error + profile list" where
  "insert_row users tbl now v =
     (case i_email v of
        None \<Rightarrow> Inl (Not_null_violation ''email'')
      | Some e \<Rightarrow>
          (let tbl' = tbl @ [\<lparr>p_id = i_id v, p_email = e, p_full_name = i_full_name v,
                              p_avatar_url = None, p_role = i_role v,
                              p_created_at = now, p_updated_at = now\<rparr>]
           in case profiles_constraints users tbl' of
                Some err \<Rightarrow> Inl err
              | None \<Rightarrow> Inr tbl'))"

section \<open>Row-level security policies\<close>

text \<open>
  \<^verbatim>\<open>ALTER TABLE profiles ENABLE ROW LEVEL SECURITY\<close>, and five policies, each
  \<^verbatim>\<open>TO authenticated\<close>. Their expressions are of two forms: the comparison
  \<^verbatim>\<open>auth.uid() = id\<close>, and the sub-select
  \<^verbatim>\<open>EXISTS (SELECT 1 FROM profiles WHERE id = auth.uid() AND role = 'admin')\<close>, which
  reads the table the policy is on.
\<close>

datatype command = Cmd_select | Cmd_insert | Cmd_update

datatype simple_qual = Uid_equals_id

datatype qual = Plain simple_qual | Exists_own_admin_row

record policy =
  pol_name :: string
  pol_command :: command
  pol_using :: "qual option"
  pol_with_check :: "qual option"

definition profiles_policies :: "policy list" where
  "profiles_policies =
     [\<lparr>pol_name = ''Users can view their own profile'', pol_command = Cmd_select,
       pol_using = Some (Plain Uid_equals_id), pol_with_check = None\<rparr>,
      \<lparr>pol_name = ''Users can update their own profile'', pol_command = Cmd_update,
       pol_using = Some (Plain Uid_equals_id), pol_with_check = Some (Plain Uid_equals_id)\<rparr>,
      \<lparr>pol_name = ''Admins can view all profiles'', pol_command = Cmd_select,
       pol_using = Some Exists_own_admin_row, pol_with_check = None\<rparr>,
      \<lparr>pol_name = ''Admins can update all profiles'', pol_command = Cmd_update,
       pol_using = Some Exists_own_admin_row, pol_with_check = None\<rparr>,
      \<lparr>pol_name = ''Allow profile creation during signup'', pol_command = Cmd_insert,
       pol_using = None, pol_with_check = Some (Plain Uid_equals_id)\<rparr>]"

text \<open>
  The expressions a statement of an authenticated caller is rewritten with: the
  \<^verbatim>\<open>USING\<close> expressions of the policies for its command, and for the new rows their
  \<^verbatim>\<open>WITH CHECK\<close> expressions, where a policy without \<^verbatim>\<open>WITH CHECK\<close> (the admin update
  policy) checks with its \<^verbatim>\<open>USING\<close>. Permissive policies are combined with OR.
\<close>

definition using_quals :: "command \<Rightarrow> qual list" where
  "using_quals cmd =
     List.map_filter pol_using (filter (\<lambda>p. pol_command p = cmd) profiles_policies)"

definition check_quals :: "command \<Rightarrow> qual list" where
  "check_quals cmd =
     List.map_filter (\<lambda>p. case pol_with_check p of Some q \<Rightarrow> Some q | None \<Rightarrow> pol_using p)
       (filter (\<lambda>p. pol_command p = cmd) profiles_policies)"

text \<open>
  The database rewrites a statement on \<^verbatim>\<open>profiles\<close> with these expressions before it
  reads any row. A sub-select from \<^verbatim>\<open>profiles\<close> inside one of them is itself a select on
  \<^verbatim>\<open>profiles\<close>, to be rewritten with the policies of \<^verbatim>\<open>profiles\<close> while these are being
  applied: the rewriting stops with the error 42P17, whatever the rows are. Only a
  statement whose expressions are all without such a sub-select is executed.
\<close>

fun without_subselect :: "qual \<Rightarrow> simple_qual option" where
  "without_subselect (Plain q) = Some q"
| "without_subselect Exists_own_admin_row = None"

definition rewrite_quals :: "qual list \<Rightarrow> pg_error + simple_qual list" where
  "rewrite_quals qs =
     (case those (map without_subselect qs) of
        None \<Rightarrow> Inl Policy_recursion
      | Some ps \<Rightarrow> Inr ps)"

text \<open>
  \<^verbatim>\<open>auth.uid() = id\<close> for the caller \<open>uid\<close> and a row with the id \<open>rid\<close>; a row passes
  when one of the expressions holds.
\<close>

fun holds :: "simple_qual \<Rightarrow> uuid \<Rightarrow> uuid \<Rightarrow> bool" where
  "holds Uid_equals_id uid rid = (uid = rid)"

definition some_holds :: "simple_qual list \<Rightarrow> uuid \<Rightarrow> uuid \<Rightarrow> bool" where
  "some_holds ps uid rid = list_ex (\<lambda>q. holds q uid rid) ps"

section \<open>Statements on the table\<close>

text \<open>
  The caller of a client request is \<open>Some uid\<close>, the authenticated user \<^verbatim>\<open>auth.uid()\<close>,
  or \<open>None\<close>, an anonymous caller: no policy is for that role, so it sees no row and may
  insert none. The triggers and a caller that row-level security does not apply to (the
  owner of the table) have statements of their own below.

  An insert by a client (without \<^verbatim>\<open>RETURNING\<close>): the policy
  \<^verbatim>\<open>Allow profile creation during signup\<close> is checked on the new row, then the
  constraints. A failed statement leaves the table as it was.
\<close>

definition insert_profile_as ::
  "uuid option \<Rightarrow> database \<Rightarrow> timestamptz \<Rightarrow> profile_insert \<Rightarrow> pg_error + profile list" where
  "insert_profile_as uid db now v =
     (case uid of
        None \<Rightarrow> Inl Rls_violation
      | Some x \<Rightarrow>
          (case rewrite_quals (check_quals Cmd_insert) of
             Inl e \<Rightarrow> Inl e
           | Inr cs \<Rightarrow>
               if \<not> some_holds cs x (i_id v) then Inl Rls_violation
               else insert_row (auth_users db) (profiles db) now v))"

text \<open>
  The trigger function \<^verbatim>\<open>handle_new_user\<close> (\<^verbatim>\<open>SECURITY DEFINER\<close>: no policy applies):
  \<^verbatim>\<open>
  INSERT INTO profiles (id, email, full_name, role)
  VALUES (NEW.id, NEW.email,
          COALESCE(NEW.raw_user_meta_data->>'full_name', ''),
          COALESCE((NEW.raw_user_meta_data->>'role')::user_role, 'user'));
  \<close>
\<close>

definition handle_new_user :: "auth_user \<Rightarrow> database \<Rightarrow> timestamptz \<Rightarrow> pg_error + profile list" where
  "handle_new_user NEW db now =
     (let meta = map_of (u_raw_user_meta_data NEW);
          full_name = (case meta ''full_name'' of None \<Rightarrow> '''' | Some n \<Rightarrow> n)
      in case meta ''role'' of
           None \<Rightarrow>
             insert_row (auth_users db) (profiles db) now
               \<lparr>i_id = u_id NEW, i_email = u_email NEW, i_full_name = Some full_name, i_role = Role_user\<rparr>
         | Some s \<Rightarrow>
             (case cast_user_role s of
                None \<Rightarrow> Inl (Invalid_enum_input s)
              | Some r \<Rightarrow>
                  insert_row (auth_users db) (profiles db) now
                    \<lparr>i_id = u_id NEW, i_email = u_email NEW, i_full_name = Some full_name, i_role = r\<rparr>))"

text \<open>
  An insert into \<^verbatim>\<open>auth.users\<close> fires \<^verbatim>\<open>on_auth_user_created\<close>
  (\<^verbatim>\<open>AFTER INSERT ... FOR EACH ROW\<close>); an error of the trigger aborts the insert. The key
  of \<^verbatim>\<open>auth.users\<close> is its id, which the foreign key of \<^verbatim>\<open>profiles\<close> references.
\<close>

definition insert_auth_user :: "auth_user \<Rightarrow> database \<Rightarrow> timestamptz \<Rightarrow> pg_error + database" where
  "insert_auth_user u db now =
     (if u_id u \<in> set (map u_id (auth_users db)) then Inl (Unique_violation ''users_pkey'')
      else
        (let db1 = db\<lparr>auth_users := auth_users db @ [u]\<rparr>
         in case handle_new_user u db1 now of
              Inl e \<Rightarrow> Inl e
            | Inr tbl \<Rightarrow> Inr (db1\<lparr>profiles := tbl\<rparr>)))"

text \<open>\<^verbatim>\<open>REFERENCES auth.users(id) ON DELETE CASCADE\<close>: deleting a user deletes the profile.\<close>

definition delete_auth_user :: "uuid \<Rightarrow> database \<Rightarrow> database" where
  "delete_auth_user x db =
     \<lparr>auth_users = filter (\<lambda>u. u_id u \<noteq> x) (auth_users db),
      profiles = filter (\<lambda>r. p_id r \<noteq> x) (profiles db)\<rparr>"

text \<open>
  The \<^verbatim>\<open>SET\<close> list of an update: for each column, the value assigned or \<open>None\<close> when the
  column is not assigned. A nullable column can be assigned NULL (\<open>Some None\<close>).
\<close>

record profile_update =
  set_id :: "uuid option"
  set_email :: "string option"
  set_full_name :: "string option option"
  set_avatar_url :: "string option option"
  set_role :: "user_role option"
  set_created_at :: "timestamptz option"
  set_updated_at :: "timestamptz option"

definition apply_set :: "profile_update \<Rightarrow> profile \<Rightarrow> profile" where
  "apply_set s r =
     \<lparr>p_id = (case set_id s of None \<Rightarrow> p_id r | Some v \<Rightarrow> v),
      p_email = (case set_email s of None \<Rightarrow> p_email r | Some v \<Rightarrow> v),
      p_full_name = (case set_full_name s of None \<Rightarrow> p_full_name r | Some v \<Rightarrow> v),
      p_avatar_url = (case set_avatar_url s of None \<Rightarrow> p_avatar_url r | Some v \<Rightarrow> v),
      p_role = (case set_role s of None \<Rightarrow> p_role r | Some v \<Rightarrow> v),
      p_created_at = (case set_created_at s of None \<Rightarrow> p_created_at r | Some v \<Rightarrow> v),
      p_updated_at = (case set_updated_at s of None \<Rightarrow> p_updated_at r | Some v \<Rightarrow> v)\<rparr>"

text \<open>
  The trigger function \<^verbatim>\<open>update_updated_at_column\<close>, fired \<^verbatim>\<open>BEFORE UPDATE ... FOR EACH ROW\<close>:
  \<^verbatim>\<open>NEW.updated_at = NOW(); RETURN NEW;\<close>
\<close>

definition update_updated_at_column :: "timestamptz \<Rightarrow> profile \<Rightarrow> profile" where
  "update_updated_at_column now NEW = NEW\<lparr>p_updated_at := now\<rparr>"

text \<open>
  The rows of an \<^verbatim>\<open>UPDATE profiles SET ... WHERE ...\<close>: the rows \<open>target\<close> selects are
  replaced by what the \<^verbatim>\<open>SET\<close> list and then the trigger make of them, the others stay.
  A new row must pass \<open>check\<close> and the table constraints, or the statement fails and
  changes nothing.
\<close>

definition update_new_row :: "timestamptz \<Rightarrow> profile_update \<Rightarrow> profile \<Rightarrow> profile" where
  "update_new_row now s r = update_updated_at_column now (apply_set s r)"

definition update_rows ::
  "database \<Rightarrow> timestamptz \<Rightarrow> (profile \<Rightarrow> bool) \<Rightarrow> (profile \<Rightarrow> bool) \<Rightarrow> profile_update
     \<Rightarrow> pg_error + profile list" where
  "update_rows db now target check s =
     (let tbl = profiles db;
          tbl' = map (\<lambda>r. if target r then update_new_row now s r else r) tbl
      in if list_ex (\<lambda>r. target r \<and> \<not> check (update_new_row now s r)) tbl
         then Inl Rls_violation
         else case profiles_constraints (auth_users db) tbl' of
                Some err \<Rightarrow> Inl err
              | None \<Rightarrow> Inr tbl')"

text \<open>
  An update by a client. The statement is rewritten with the \<^verbatim>\<open>USING\<close> expressions of
  the update policies and, because it reads the rows it changes, of the select policies,
  and with the \<^verbatim>\<open>WITH CHECK\<close> expressions of the update policies. When the rewriting
  succeeds, a row is updated when it satisfies the \<^verbatim>\<open>WHERE\<close> clause and passes both
  \<^verbatim>\<open>USING\<close> lists; the other rows are skipped without an error. An anonymous caller
  updates no row.
\<close>

definition update_profiles_as ::
  "uuid option \<Rightarrow> database \<Rightarrow> timestamptz \<Rightarrow> (profile \<Rightarrow> bool) \<Rightarrow> profile_update \<Rightarrow> pg_error + profile list" where
  "update_profiles_as uid db now whr s =
     (case uid of
        None \<Rightarrow> Inr (profiles db)
      | Some x \<Rightarrow>
          (case rewrite_quals (using_quals Cmd_update) of
             Inl e \<Rightarrow> Inl e
           | Inr us \<Rightarrow>
               (case rewrite_quals (using_quals Cmd_select) of
                  Inl e \<Rightarrow> Inl e
                | Inr ss \<Rightarrow>
                    (case rewrite_quals (check_quals Cmd_update) of
                       Inl e \<Rightarrow> Inl e
                     | Inr cs \<Rightarrow>
                         update_rows db now
                           (\<lambda>r. whr r \<and> some_holds us x (p_id r) \<and> some_holds ss x (p_id r))
                           (\<lambda>n. some_holds cs x (p_id n)) s))))"

text \<open>
  An update by the owner of the table: row-level security is enabled but not forced, so
  no policy applies to the owner. The trigger and the constraints apply as to any update.
\<close>

definition update_profiles_owner ::
  "database \<Rightarrow> timestamptz \<Rightarrow> (profile \<Rightarrow> bool) \<Rightarrow> profile_update \<Rightarrow> pg_error + profile list" where
  "update_profiles_owner db now whr s = update_rows db now whr (\<lambda>n. True) s"

text \<open>
  \<^verbatim>\<open>SELECT ... FROM profiles WHERE ...\<close> by a client: rewritten with the \<^verbatim>\<open>USING\<close>
  expressions of the select policies; when the rewriting succeeds, the rows that satisfy
  the \<^verbatim>\<open>WHERE\<close> clause and pass are returned.
\<close>

definition select_profiles_as ::
  "uuid option \<Rightarrow> profile list \<Rightarrow> (profile \<Rightarrow> bool) \<Rightarrow> pg_error + profile list" where
  "select_profiles_as uid tbl whr =
     (case uid of
        None \<Rightarrow> Inr []
      | Some x \<Rightarrow>
          (case rewrite_quals (using_quals Cmd_select) of
             Inl e \<Rightarrow> Inl e
           | Inr ps \<Rightarrow> Inr (filter (\<lambda>r. whr r \<and> some_holds ps x (p_id r)) tbl)))"

text \<open>\<^verbatim>\<open>.single()\<close>: the result must be exactly one row.\<close>

definition single :: "'a list \<Rightarrow> pg_error + 'a" where
  "single rows = (case rows of [r] \<Rightarrow> Inr r | _ \<Rightarrow> Inl Not_single_row)"

text \<open>
  The statements that reach the two tables, each with the \<^verbatim>\<open>NOW()\<close> of its transaction
  (the statements of one transaction have the same), and a run of them from the empty
  database. A statement that fails leaves the database unchanged.
\<close>

datatype db_stmt =
    Insert_auth_user auth_user
  | Delete_auth_user uuid
  | Insert_profile "uuid option" profile_insert
  | Update_profiles "uuid option" "profile \<Rightarrow> bool" profile_update
  | Owner_update "profile \<Rightarrow> bool" profile_update

fun exec_stmt :: "timestamptz \<times> db_stmt \<Rightarrow> database \<Rightarrow> database" where
  "exec_stmt (now, Insert_auth_user u) db =
     (case insert_auth_user u db now of Inl e \<Rightarrow> db | Inr db' \<Rightarrow> db')"
| "exec_stmt (now, Delete_auth_user x) db = delete_auth_user x db"
| "exec_stmt (now, Insert_profile uid v) db =
     (case insert_profile_as uid db now v of Inl e \<Rightarrow> db | Inr tbl \<Rightarrow> db\<lparr>profiles := tbl\<rparr>)"
| "exec_stmt (now, Update_profiles uid whr s) db =
     (case update_profiles_as uid db now whr s of Inl e \<Rightarrow> db | Inr tbl \<Rightarrow> db\<lparr>profiles := tbl\<rparr>)"
| "exec_stmt (now, Owner_update whr s) db =
     (case update_profiles_owner db now whr s of Inl e \<Rightarrow> db | Inr tbl \<Rightarrow> db\<lparr>profiles := tbl\<rparr>)"

fun exec_stmts :: "(timestamptz \<times> db_stmt) list \<Rightarrow> database \<Rightarrow> database" where
  "exec_stmts [] db = db"
| "exec_stmts (st # sts) db = exec_stmts sts (exec_stmt st db)"

text \<open>The filter \<^verbatim>\<open>.eq('id', x)\<close> of a client request.\<close>

definition eq_id :: "uuid \<Rightarrow> profile \<Rightarrow> bool" where
  "eq_id x r = (p_id r = x)"

text \<open>
  The consistency the two tables keep: the key of \<^verbatim>\<open>auth.users\<close> is unique and the
  constraints of \<^verbatim>\<open>profiles\<close> hold.
\<close>

definition db_inv :: "database \<Rightarrow> bool" where
  "db_inv db =
     (distinct (map u_id (auth_users db)) \<and> profiles_constraints (auth_users db) (profiles db) = None)"

section \<open>The client: the types of \<^verbatim>\<open>client/src/lib/auth.ts\<close>\<close>

text \<open>
  An error value: the provider's \<^verbatim>\<open>AuthError\<close>, an error of a table request, a
  JavaScript \<^verbatim>\<open>new Error(message)\<close>, or the \<^verbatim>\<open>TypeError\<close> of reading a property of
  \<^verbatim>\<open>null\<close>. An awaited call either resolves with its result object or rejects (throws).
\<close>

datatype error =
    AuthError string
  | PostgrestError pg_error
  | Error string
  | TypeError

datatype 'a outcome = Resolved 'a | Rejected error

text \<open>The selected columns \<^verbatim>\<open>'full_name, avatar_url, role'\<close>, the \<^verbatim>\<open>profile\<close> of an \<^verbatim>\<open>AuthUser\<close>.\<close>

record profile_view =
  full_name :: "string option"
  avatar_url :: "string option"
  role :: user_role

text \<open>The provider's \<^verbatim>\<open>User\<close> object, as far as the client reads it.\<close>

record User =
  user_id :: uuid
  user_email :: "string option"

text \<open>\<^verbatim>\<open>interface AuthUser extends User { profile?: {...} }\<close>\<close>

record AuthUser = User +
  profile :: "profile_view option"

text \<open>
  \<^verbatim>\<open>user as AuthUser\<close> is the same object, without a profile; \<^verbatim>\<open>{ ...user, profile }\<close>
  is the object with the profile attached.
\<close>

definition as_AuthUser :: "User \<Rightarrow> profile_view option \<Rightarrow> AuthUser" where
  "as_AuthUser u p = \<lparr>user_id = user_id u, user_email = user_email u, profile = p\<rparr>"

record Session =
  access_token :: string
  session_user :: User

record SignUpData =
  su_email :: string
  su_password :: string
  su_fullName :: "string option"
  su_role :: "user_role option"

record SignInData =
  si_email :: string
  si_password :: string

record AuthResponse =
  user :: "AuthUser option"
  session :: "Session option"
  error :: "error option"

text \<open>The argument of \<^verbatim>\<open>updateProfile\<close>: \<^verbatim>\<open>{ full_name?: string; avatar_url?: string }\<close>.\<close>

record profile_updates =
  up_full_name :: "string option"
  up_avatar_url :: "string option"

section \<open>The SDK client \<^verbatim>\<open>supabase\<close>\<close>

text \<open>
  The object \<^verbatim>\<open>supabase\<close> imported from \<^verbatim>\<open>./supabase\<close> is a parameter: each method the
  client calls is a function from the backend's state to the awaited outcome and the
  backend's next state. The three last fields are the requests the client builds on
  \<^verbatim>\<open>supabase.from('profiles')\<close>: \<^verbatim>\<open>.insert(row)\<close>,
  \<^verbatim>\<open>.select('full_name, avatar_url, role').eq('id', x).single()\<close> and
  \<^verbatim>\<open>.update(values).eq('id', x)\<close>.
\<close>

record signup_credentials =
  c_email :: string
  c_password :: string
  c_options_data :: "(string \<times> string) list"

type_synonym auth_data = "User option \<times> Session option"

record 's supabase =
  auth_signUp :: "signup_credentials \<Rightarrow> 's \<Rightarrow> (auth_data \<times> error option) outcome \<times> 's"
  auth_signInWithPassword :: "string \<Rightarrow> string \<Rightarrow> 's \<Rightarrow> (auth_data \<times> error option) outcome \<times> 's"
  auth_signOut :: "'s \<Rightarrow> (unit \<times> error option) outcome \<times> 's"
  auth_getSession :: "'s \<Rightarrow> (Session option \<times> error option) outcome \<times> 's"
  auth_getUser :: "'s \<Rightarrow> (User option \<times> error option) outcome \<times> 's"
  auth_updateUser :: "string \<Rightarrow> 's \<Rightarrow> (unit \<times> error option) outcome \<times> 's"
  auth_resetPasswordForEmail :: "string \<Rightarrow> string \<Rightarrow> 's \<Rightarrow> (unit \<times> error option) outcome \<times> 's"
  profiles_insert :: "profile_insert \<Rightarrow> 's \<Rightarrow> (unit \<times> error option) outcome \<times> 's"
  profiles_select_single :: "uuid \<Rightarrow> 's \<Rightarrow> (profile_view option \<times> error option) outcome \<times> 's"
  profiles_update_eq_id :: "profile_update \<Rightarrow> uuid \<Rightarrow> 's \<Rightarrow> (unit \<times> error option) outcome \<times> 's"

text \<open>
  What the client code acts on besides its arguments: the backend behind the SDK, the
  console, the client's clock (\<^verbatim>\<open>new Date()\<close>) and \<^verbatim>\<open>window.location.origin\<close>.
\<close>

datatype log_entry =
    Console_error string "error option"
  | Console_log string string "string option"

record 's world =
  backend :: 's
  console :: "log_entry list"
  clock :: timestamptz
  origin :: string

definition console_error :: "string \<Rightarrow> error option \<Rightarrow> 's world \<Rightarrow> 's world" where
  "console_error label e w = w\<lparr>console := console w @ [Console_error label e]\<rparr>"

definition await :: "('s \<Rightarrow> 'a \<times> 's) \<Rightarrow> 's world \<Rightarrow> 'a \<times> 's world" where
  "await f w = (case f (backend w) of (r, s') \<Rightarrow> (r, w\<lparr>backend := s'\<rparr>))"

section \<open>\<^verbatim>\<open>AuthService\<close>\<close>

text \<open>
  The object literal \<^verbatim>\<open>{ full_name: fullName, role: role }\<close> sent as \<^verbatim>\<open>options.data\<close>, as
  JSON: a member whose value is \<^verbatim>\<open>undefined\<close> is left out.
\<close>

definition options_data :: "string option \<Rightarrow> user_role \<Rightarrow> (string \<times> string) list" where
  "options_data fullName r =
     (case fullName of None \<Rightarrow> [] | Some n \<Rightarrow> [(''full_name'', n)]) @ [(''role'', role_label r)]"

text \<open>\<^verbatim>\<open>fullName || null\<close>: an absent or empty name becomes \<^verbatim>\<open>null\<close>.\<close>

definition or_null :: "string option \<Rightarrow> string option" where
  "or_null x = (case x of None \<Rightarrow> None | Some n \<Rightarrow> if n = '''' then None else Some n)"

text \<open>\<^verbatim>\<open>const { email, password, fullName, role = 'user' } = data\<close>: the default of \<^verbatim>\<open>role\<close>.\<close>

definition role_or_default :: "SignUpData \<Rightarrow> user_role" where
  "role_or_default data = (case su_role data of None \<Rightarrow> Role_user | Some r \<Rightarrow> r)"

text \<open>The argument of \<^verbatim>\<open>supabase.auth.signUp\<close> and the row given to \<^verbatim>\<open>.insert\<close>.\<close>

definition signUp_credentials :: "SignUpData \<Rightarrow> signup_credentials" where
  "signUp_credentials data =
     \<lparr>c_email = su_email data, c_password = su_password data,
      c_options_data = options_data (su_fullName data) (role_or_default data)\<rparr>"

definition signUp_profile_row :: "SignUpData \<Rightarrow> User \<Rightarrow> profile_insert" where
  "signUp_profile_row data u =
     \<lparr>i_id = user_id u, i_email = user_email u,
      i_full_name = or_null (su_fullName data), i_role = role_or_default data\<rparr>"

definition signUp :: "'s supabase \<Rightarrow> SignUpData \<Rightarrow> 's world \<Rightarrow> AuthResponse \<times> 's world" where
  "signUp supabase data w =
     (case await (auth_signUp supabase (signUp_credentials data)) w of
        (Rejected e, w1) \<Rightarrow>
          (\<lparr>user = None, session = None, error = Some e\<rparr>,
           console_error ''Unexpected sign up error:'' (Some e) w1)
      | (Resolved (authData, Some authError), w1) \<Rightarrow>
          (\<lparr>user = None, session = None, error = Some authError\<rparr>,
           console_error ''Sign up error:'' (Some authError) w1)
      | (Resolved ((None, authSession), None), w1) \<Rightarrow>
          (\<lparr>user = None, session = authSession, error = None\<rparr>, w1)
      | (Resolved ((Some u, authSession), None), w1) \<Rightarrow>
          (case await (profiles_insert supabase (signUp_profile_row data u)) w1 of
             (Rejected e, w2) \<Rightarrow>
               (\<lparr>user = None, session = None, error = Some e\<rparr>,
                console_error ''Unexpected sign up error:'' (Some e) w2)
           | (Resolved (_, Some profileError), w2) \<Rightarrow>
               (\<lparr>user = Some (as_AuthUser u None), session = authSession, error = None\<rparr>,
                console_error ''Profile creation error:'' (Some profileError) w2)
           | (Resolved (_, None), w2) \<Rightarrow>
               (\<lparr>user = Some (as_AuthUser u None), session = authSession, error = None\<rparr>, w2)))"

definition getUserWithProfile :: "'s supabase \<Rightarrow> uuid \<Rightarrow> 's world \<Rightarrow> AuthUser option \<times> 's world" where
  "getUserWithProfile supabase userId w =
     (case await (auth_getUser supabase) w of
        (Rejected e, w1) \<Rightarrow>
          (None, console_error ''Unexpected get user with profile error:'' (Some e) w1)
      | (Resolved (_, Some userError), w1) \<Rightarrow> (None, w1)
      | (Resolved (None, None), w1) \<Rightarrow> (None, w1)
      | (Resolved (Some u, None), w1) \<Rightarrow>
          (case await (profiles_select_single supabase userId) w1 of
             (Rejected e, w2) \<Rightarrow>
               (None, console_error ''Unexpected get user with profile error:'' (Some e) w2)
           | (Resolved (_, Some profileError), w2) \<Rightarrow>
               (Some (as_AuthUser u None),
                console_error ''Profile fetch error:'' (Some profileError) w2)
           | (Resolved (p, None), w2) \<Rightarrow> (Some (as_AuthUser u p), w2)))"

definition signIn :: "'s supabase \<Rightarrow> SignInData \<Rightarrow> 's world \<Rightarrow> AuthResponse \<times> 's world" where
  "signIn supabase data w =
     (case await (auth_signInWithPassword supabase (si_email data) (si_password data)) w of
        (Rejected e, w1) \<Rightarrow>
          (\<lparr>user = None, session = None, error = Some e\<rparr>,
           console_error ''Unexpected sign in error:'' (Some e) w1)
      | (Resolved (authData, Some authError), w1) \<Rightarrow>
          (\<lparr>user = None, session = None, error = Some authError\<rparr>,
           console_error ''Sign in error:'' (Some authError) w1)
      | (Resolved ((None, authSession), None), w1) \<Rightarrow>
          \<comment> \<open>\<^verbatim>\<open>authData.user.id\<close> on \<^verbatim>\<open>null\<close> throws, and the \<^verbatim>\<open>catch\<close> returns the error\<close>
          (\<lparr>user = None, session = None, error = Some TypeError\<rparr>,
           console_error ''Unexpected sign in error:'' (Some TypeError) w1)
      | (Resolved ((Some u, authSession), None), w1) \<Rightarrow>
          (case getUserWithProfile supabase (user_id u) w1 of
             (userWithProfile, w2) \<Rightarrow>
               (\<lparr>user = userWithProfile, session = authSession, error = None\<rparr>, w2)))"

definition signOut :: "'s supabase \<Rightarrow> 's world \<Rightarrow> error option \<times> 's world" where
  "signOut supabase w =
     (case await (auth_signOut supabase) w of
        (Rejected e, w1) \<Rightarrow> (Some e, console_error ''Unexpected sign out error:'' (Some e) w1)
      | (Resolved (_, Some e), w1) \<Rightarrow> (Some e, console_error ''Sign out error:'' (Some e) w1)
      | (Resolved (_, None), w1) \<Rightarrow> (None, w1))"


definition getCurrentUser :: "'s supabase \<Rightarrow> 's world \<Rightarrow> AuthUser option \<times> 's world" where
  "getCurrentUser supabase w =
     (case await (auth_getUser supabase) w of
        (Rejected e, w1) \<Rightarrow> (None, console_error ''Unexpected get user error:'' (Some e) w1)
      | (Resolved (_, Some e), w1) \<Rightarrow> (None, console_error ''Get user error:'' (Some e) w1)
      | (Resolved (None, None), w1) \<Rightarrow> (None, console_error ''Get user error:'' None w1)
      | (Resolved (Some u, None), w1) \<Rightarrow> getUserWithProfile supabase (user_id u) w1)"

definition updateProfile :: "'s supabase \<Rightarrow> profile_updates \<Rightarrow> 's world \<Rightarrow> error option \<times> 's world" where
  "updateProfile supabase updates w =
     (case getCurrentUser supabase w of
        (None, w1) \<Rightarrow> (Some (Error ''No authenticated user''), w1)
      | (Some u, w1) \<Rightarrow>
          (case await (profiles_update_eq_id supabase
                         \<lparr>set_id = None, set_email = None,
                          set_full_name = map_option Some (up_full_name updates),
                          set_avatar_url = map_option Some (up_avatar_url updates),
                          set_role = None, set_created_at = None,
                          set_updated_at = Some (clock w1)\<rparr>
                         (user_id u)) w1 of
             (Rejected e, w2) \<Rightarrow>
               (Some e, console_error ''Unexpected profile update error:'' (Some e) w2)
           | (Resolved (_, Some e), w2) \<Rightarrow>
               (Some e, console_error ''Profile update error:'' (Some e) w2)
           | (Resolved (_, None), w2) \<Rightarrow> (None, w2)))"



text \<open>\<^verbatim>\<open>user?.profile?.role === role || false\<close>\<close>

definition profile_role_is :: "AuthUser option \<Rightarrow> user_role \<Rightarrow> bool" where
  "profile_role_is u r =
     (case u of
        None \<Rightarrow> False
      | Some a \<Rightarrow> (case profile a of None \<Rightarrow> False | Some p \<Rightarrow> role p = r))"

definition hasRole :: "'s supabase \<Rightarrow> user_role \<Rightarrow> 's world \<Rightarrow> bool \<times> 's world" where
  "hasRole supabase r w =
     (case getCurrentUser supabase w of (u, w1) \<Rightarrow> (profile_role_is u r, w1))"

definition isAdmin :: "'s supabase \<Rightarrow> 's world \<Rightarrow> bool \<times> 's world" where
  "isAdmin supabase w = hasRole supabase Role_admin w"

section \<open>\<^verbatim>\<open>AuthProvider\<close>: the session context\<close>

text \<open>The four \<^verbatim>\<open>useState\<close> cells of the component, with their initial values.\<close>

record AuthState =
  ctx_user :: "AuthUser option"
  ctx_session :: "Session option"
  ctx_loading :: bool
  ctx_isAdmin :: bool

definition initial_AuthState :: AuthState where
  "initial_AuthState = \<lparr>ctx_user = None, ctx_session = None, ctx_loading = True, ctx_isAdmin = False\<rparr>"

text \<open>
  The callback given to \<^verbatim>\<open>AuthService.onAuthStateChange\<close>. \<^verbatim>\<open>Session.user\<close> is not
  optional, so \<^verbatim>\<open>session?.user\<close> is there exactly when the session is.
\<close>

definition onAuthStateChange_callback ::
  "'s supabase \<Rightarrow> string \<Rightarrow> Session option \<Rightarrow> AuthState \<Rightarrow> 's world \<Rightarrow> AuthState \<times> 's world" where
  "onAuthStateChange_callback supabase event sess st w =
     (let w0 = w\<lparr>console := console w @
                   [Console_log ''Auth state changed:'' event
                      (case sess of None \<Rightarrow> None | Some s \<Rightarrow> user_email (session_user s))]\<rparr>;
          st1 = st\<lparr>ctx_session := sess\<rparr>
      in case sess of
           Some s \<Rightarrow>
             (case getCurrentUser supabase w0 of
                (userWithProfile, w1) \<Rightarrow>
                  (st1\<lparr>ctx_user := userWithProfile,
                       ctx_isAdmin := profile_role_is userWithProfile Role_admin,
                       ctx_loading := False\<rparr>, w1))
         | None \<Rightarrow> (st1\<lparr>ctx_user := None, ctx_isAdmin := False, ctx_loading := False\<rparr>, w0))"

text \<open>
  The operations the context exposes return \<^verbatim>\<open>Promise<void>\<close> and rethrow the error of
  the service: the outcome is \<open>Resolved ()\<close> or \<open>Rejected e\<close>.
\<close>

definition AuthProvider_signIn ::
  "'s supabase \<Rightarrow> string \<Rightarrow> string \<Rightarrow> AuthState \<Rightarrow> 's world \<Rightarrow> unit outcome \<times> AuthState \<times> 's world" where
  "AuthProvider_signIn supabase email password st w =
     (let st1 = st\<lparr>ctx_loading := True\<rparr>
      in case signIn supabase \<lparr>si_email = email, si_password = password\<rparr> w of
           (res, w1) \<Rightarrow>
             (case error res of
                Some e \<Rightarrow> (Rejected e, st1\<lparr>ctx_loading := False\<rparr>, w1)
              | None \<Rightarrow> (Resolved (), st1, w1)))"

definition AuthProvider_signUp ::
  "'s supabase \<Rightarrow> string \<Rightarrow> string \<Rightarrow> string option \<Rightarrow> AuthState \<Rightarrow> 's world
     \<Rightarrow> unit outcome \<times> AuthState \<times> 's world" where
  "AuthProvider_signUp supabase email password fullName st w =
     (let st1 = st\<lparr>ctx_loading := True\<rparr>
      in case signUp supabase
                \<lparr>su_email = email, su_password = password, su_fullName = fullName,
                 su_role = Some Role_user\<rparr> w of
           (res, w1) \<Rightarrow>
             (case error res of
                Some e \<Rightarrow> (Rejected e, st1\<lparr>ctx_loading := False\<rparr>, w1)
              | None \<Rightarrow> (Resolved (), st1, w1)))"

definition AuthProvider_signOut ::
  "'s supabase \<Rightarrow> AuthState \<Rightarrow> 's world \<Rightarrow> unit outcome \<times> AuthState \<times> 's world" where
  "AuthProvider_signOut supabase st w =
     (let st1 = st\<lparr>ctx_loading := True\<rparr>
      in case signOut supabase w of
           (Some e, w1) \<Rightarrow> (Rejected e, st1\<lparr>ctx_loading := False\<rparr>, w1)
         | (None, w1) \<Rightarrow> (Resolved (), st1, w1))"

section \<open>What the client relies on from the provider at sign-out\<close>

text \<open>
  The SDK is a parameter, and nothing in the client makes the provider forget a session.
  The provider's part of a sign-out is stated as a property of the parameter: in the state
  that a \<^verbatim>\<open>signOut\<close> resolving without an error leaves, \<^verbatim>\<open>getUser\<close> does not answer with
  a user.
\<close>

definition signOut_ends_session :: "'s supabase \<Rightarrow> bool" where
  "signOut_ends_session supabase =
     (\<forall>s d s'. auth_signOut supabase s = (Resolved (d, None), s') \<longrightarrow>
        (\<forall>u. fst (auth_getUser supabase s') \<noteq> Resolved (Some u, None)))"

section \<open>Observing the requests a client operation sends\<close>

text \<open>
  To state which requests an operation sends, any SDK client is wrapped into one that
  answers as the given one does and appends each request, with the failure it came back
  with (a rejection or an \<^verbatim>\<open>error\<close> member), to a trace.
\<close>

datatype sdk_call =
    Call_signUp signup_credentials
  | Call_signInWithPassword string string
  | Call_signOut
  | Call_getSession
  | Call_getUser
  | Call_updateUser string
  | Call_resetPasswordForEmail string string
  | Call_insert profile_insert
  | Call_select_single uuid
  | Call_update profile_update uuid


definition failure :: "('a \<times> error option) outcome \<Rightarrow> error option" where
  "failure r = (case r of Rejected e \<Rightarrow> Some e | Resolved (d, e) \<Rightarrow> e)"

type_synonym sdk_event = "sdk_call \<times> error option"

definition observe ::
  "sdk_call \<Rightarrow> ('s \<Rightarrow> ('a \<times> error option) outcome \<times> 's)
     \<Rightarrow> 's \<times> sdk_event list \<Rightarrow> ('a \<times> error option) outcome \<times> ('s \<times> sdk_event list)" where
  "observe c f st =
     (case st of (s, tr) \<Rightarrow> (case f s of (r, s') \<Rightarrow> (r, (s', tr @ [(c, failure r)]))))"

definition recording :: "'s supabase \<Rightarrow> ('s \<times> sdk_event list) supabase" where
  "recording base =
     \<lparr>auth_signUp = (\<lambda>c. observe (Call_signUp c) (auth_signUp base c)),
      auth_signInWithPassword =
        (\<lambda>e p. observe (Call_signInWithPassword e p) (auth_signInWithPassword base e p)),
      auth_signOut = observe Call_signOut (auth_signOut base),
      auth_getSession = observe Call_getSession (auth_getSession base),
      auth_getUser = observe Call_getUser (auth_getUser base),
      auth_updateUser = (\<lambda>p. observe (Call_updateUser p) (auth_updateUser base p)),
      auth_resetPasswordForEmail =
        (\<lambda>e r. observe (Call_resetPasswordForEmail e r) (auth_resetPasswordForEmail base e r)),
      profiles_insert = (\<lambda>v. observe (Call_insert v) (profiles_insert base v)),
      profiles_select_single = (\<lambda>x. observe (Call_select_single x) (profiles_select_single base x)),
      profiles_update_eq_id = (\<lambda>s x. observe (Call_update s x) (profiles_update_eq_id base s x))\<rparr>"

definition trace :: "('s \<times> sdk_event list) world \<Rightarrow> sdk_event list" where
  "trace w = snd (backend w)"

text \<open>A world of the recording client whose trace is still empty.\<close>

definition fresh :: "'s world \<Rightarrow> ('s \<times> sdk_event list) world" where
  "fresh w = \<lparr>backend = (backend w, []), console = console w, clock = clock w, origin = origin w\<rparr>"


section \<open>The operations of the service, and the shapes of their results\<close>








section \<open>The hosted backend: table requests run on the database\<close>

text \<open>
  A backend whose table requests are executed by the statements of the migration: the
  state holds the database, the \<^verbatim>\<open>NOW()\<close> of the database, the id \<^verbatim>\<open>auth.uid()\<close> of the
  session the client's requests carry, and the state of the auth provider, which stays
  a parameter.
\<close>

record 'p hosted =
  h_provider :: 'p
  h_uid :: "uuid option"
  h_now :: timestamptz
  h_db :: database

definition hosted_insert ::
  "profile_insert \<Rightarrow> 'p hosted \<Rightarrow> (unit \<times> error option) outcome \<times> 'p hosted" where
  "hosted_insert v h =
     (case insert_profile_as (h_uid h) (h_db h) (h_now h) v of
        Inl e \<Rightarrow> (Resolved ((), Some (PostgrestError e)), h)
      | Inr tbl \<Rightarrow> (Resolved ((), None), h\<lparr>h_db := (h_db h)\<lparr>profiles := tbl\<rparr>\<rparr>))"

definition hosted_select_single ::
  "uuid \<Rightarrow> 'p hosted \<Rightarrow> (profile_view option \<times> error option) outcome \<times> 'p hosted" where
  "hosted_select_single x h =
     (case select_profiles_as (h_uid h) (profiles (h_db h)) (eq_id x) of
        Inl e \<Rightarrow> (Resolved (None, Some (PostgrestError e)), h)
      | Inr rows \<Rightarrow>
          (case single rows of
             Inl e \<Rightarrow> (Resolved (None, Some (PostgrestError e)), h)
           | Inr r \<Rightarrow>
               (Resolved (Some \<lparr>full_name = p_full_name r, avatar_url = p_avatar_url r,
                               role = p_role r\<rparr>, None), h)))"

definition hosted_update ::
  "profile_update \<Rightarrow> uuid \<Rightarrow> 'p hosted \<Rightarrow> (unit \<times> error option) outcome \<times> 'p hosted" where
  "hosted_update s x h =
     (case update_profiles_as (h_uid h) (h_db h) (h_now h) (eq_id x) s of
        Inl e \<Rightarrow> (Resolved ((), Some (PostgrestError e)), h)
      | Inr tbl \<Rightarrow> (Resolved ((), None), h\<lparr>h_db := (h_db h)\<lparr>profiles := tbl\<rparr>\<rparr>))"

definition hosted :: "'p hosted supabase \<Rightarrow> 'p hosted supabase" where
  "hosted auth =
     auth\<lparr>profiles_insert := hosted_insert,
          profiles_select_single := hosted_select_single,
          profiles_update_eq_id := hosted_update\<rparr>"

text \<open>The provider's \<^verbatim>\<open>getUser\<close> is a read: it leaves the database as it is.\<close>

definition getUser_reads :: "'p hosted supabase \<Rightarrow> bool" where
  "getUser_reads auth = (\<forall>h. h_db (snd (auth_getUser auth h)) = h_db h)"

section \<open>Example data\<close>

text \<open>Three users, and the database after the provider has inserted the first two.\<close>

definition alice :: auth_user where
  "alice = \<lparr>u_id = ''a1'', u_email = Some ''alice@x.com'',
            u_raw_user_meta_data = [(''full_name'', ''Alice''), (''role'', ''user'')]\<rparr>"

definition bob :: auth_user where
  "bob = \<lparr>u_id = ''b2'', u_email = Some ''bob@x.com'',
          u_raw_user_meta_data = [(''role'', ''admin'')]\<rparr>"

definition example_db :: database where
  "example_db = exec_stmts [(10, Insert_auth_user alice), (20, Insert_auth_user bob)] empty_database"

definition rename :: "string \<Rightarrow> profile_update" where
  "rename n = \<lparr>set_id = None, set_email = None, set_full_name = Some (Some n),
               set_avatar_url = None, set_role = None, set_created_at = None,
               set_updated_at = None\<rparr>"

definition carol_row :: auth_user where
  "carol_row = \<lparr>u_id = ''c3'', u_email = Some ''carol@x.com'',
                u_raw_user_meta_data = [(''full_name'', ''Carol''), (''role'', ''user'')]\<rparr>"

definition carol_insert :: profile_insert where
  "carol_insert = \<lparr>i_id = ''c3'', i_email = Some ''carol@x.com'', i_full_name = Some ''Carol'',
                   i_role = Role_user\<rparr>"

definition carol_stored :: profile where
  "carol_stored = \<lparr>p_id = ''c3'', p_email = ''carol@x.com'', p_full_name = Some ''Carol'',
                   p_avatar_url = None, p_role = Role_user, p_created_at = 30, p_updated_at = 30\<rparr>"

text \<open>
  An SDK client that answers each method with a fixed outcome and leaves the backend's
  state as it is.
\<close>

record responses =
  on_signUp :: "(auth_data \<times> error option) outcome"
  on_signInWithPassword :: "(auth_data \<times> error option) outcome"
  on_signOut :: "(unit \<times> error option) outcome"
  on_getSession :: "(Session option \<times> error option) outcome"
  on_getUser :: "(User option \<times> error option) outcome"
  on_updateUser :: "(unit \<times> error option) outcome"
  on_resetPasswordForEmail :: "(unit \<times> error option) outcome"
  on_insert :: "(unit \<times> error option) outcome"
  on_select_single :: "(profile_view option \<times> error option) outcome"
  on_update :: "(unit \<times> error option) outcome"

definition scripted :: "responses \<Rightarrow> 's supabase" where
  "scripted r =
     \<lparr>auth_signUp = (\<lambda>c s. (on_signUp r, s)),
      auth_signInWithPassword = (\<lambda>e p s. (on_signInWithPassword r, s)),
      auth_signOut = (\<lambda>s. (on_signOut r, s)),
      auth_getSession = (\<lambda>s. (on_getSession r, s)),
      auth_getUser = (\<lambda>s. (on_getUser r, s)),
      auth_updateUser = (\<lambda>p s. (on_updateUser r, s)),
      auth_resetPasswordForEmail = (\<lambda>e d s. (on_resetPasswordForEmail r, s)),
      profiles_insert = (\<lambda>v s. (on_insert r, s)),
      profiles_select_single = (\<lambda>x s. (on_select_single r, s)),
      profiles_update_eq_id = (\<lambda>u x s. (on_update r, s))\<rparr>"

definition carol :: User where
  "carol = \<lparr>user_id = ''c3'', user_email = Some ''carol@x.com''\<rparr>"

definition carol_session :: Session where
  "carol_session = \<lparr>access_token = ''jwt'', session_user = carol\<rparr>"

definition carol_profile :: profile_view where
  "carol_profile = \<lparr>full_name = Some ''Carol'', avatar_url = None, role = Role_instructor\<rparr>"

text \<open>Every request succeeds, for the signed-in user \<open>carol\<close>.\<close>

definition all_ok :: responses where
  "all_ok =
     \<lparr>on_signUp = Resolved ((Some carol, Some carol_session), None),
      on_signInWithPassword = Resolved ((Some carol, Some carol_session), None),
      on_signOut = Resolved ((), None),
      on_getSession = Resolved (Some carol_session, None),
      on_getUser = Resolved (Some carol, None),
      on_updateUser = Resolved ((), None),
      on_resetPasswordForEmail = Resolved ((), None),
      on_insert = Resolved ((), None),
      on_select_single = Resolved (Some carol_profile, None),
      on_update = Resolved ((), None)\<rparr>"

definition duplicate_key :: error where
  "duplicate_key = PostgrestError (Unique_violation ''profiles_pkey'')"

definition carol_signup :: SignUpData where
  "carol_signup =
     \<lparr>su_email = ''carol@x.com'', su_password = ''secret1'', su_fullName = Some ''Carol'',
      su_role = None\<rparr>"

definition world0 :: "unit world" where
  "world0 = \<lparr>backend = (), console = [], clock = 0, origin = ''https://app''\<rparr>"

definition carol_signin :: SignInData where
  "carol_signin = \<lparr>si_email = ''carol@x.com'', si_password = ''secret1''\<rparr>"

definition no_row :: error where
  "no_row = PostgrestError Not_single_row"

text \<open>A hosted backend holding three users, with \<open>carol\<close> signed in.\<close>

definition carol_db :: database where
  "carol_db = \<lparr>auth_users = [alice, bob, carol_row], profiles = profiles example_db @ [carol_stored]\<rparr>"

definition hosted_world :: "unit hosted world" where
  "hosted_world =
     \<lparr>backend = \<lparr>h_provider = (), h_uid = Some ''c3'', h_now = 40, h_db = carol_db\<rparr>,
      console = [], clock = 39, origin = ''https://app''\<rparr>"

definition no_session :: error where
  "no_session = AuthError ''Auth session missing!''"

definition signed_out :: responses where
  "signed_out = all_ok\<lparr>on_getUser := Resolved (None, Some no_session)\<rparr>"

text \<open>
  A backend that holds the signed-in user as its state: \<^verbatim>\<open>signOut\<close> forgets the user and
  \<^verbatim>\<open>getUser\<close> answers from the state. The other requests answer as in \<open>all_ok\<close>.
\<close>

definition session_backend :: "User option supabase" where
  "session_backend =
     (scripted all_ok)
       \<lparr>auth_signOut := (\<lambda>s. (Resolved ((), None), None)),
        auth_getUser := (\<lambda>s. (case s of
                                 None \<Rightarrow> Resolved (None, Some no_session)
                               | Some u \<Rightarrow> Resolved (Some u, None), s))\<rparr>"

definition signed_in_world :: "User option world" where
  "signed_in_world = \<lparr>backend = Some carol, console = [], clock = 0, origin = ''https://app''\<rparr>"

definition admin_profile :: profile_view where
  "admin_profile = \<lparr>full_name = Some ''Carol'', avatar_url = None, role = Role_admin\<rparr>"

definition new_name :: profile_updates where
  "new_name = \<lparr>up_full_name = Some ''Carol C.'', up_avatar_url = None\<rparr>"





section \<open>The database: consistency, policies and triggers\<close>

lemma constraints_None_iff:
  "profiles_constraints users tbl = None \<longleftrightarrow>
     distinct (map p_id tbl) \<and> distinct (map p_email tbl) \<and> set (map p_id tbl) \<subseteq> set (map u_id users)"
  by (simp add: profiles_constraints_def)

lemma insert_row_Inr:
  assumes "insert_row users tbl now v = Inr tbl'"
  shows "\<exists>e. i_email v = Some e \<and>
           tbl' = tbl @ [\<lparr>p_id = i_id v, p_email = e, p_full_name = i_full_name v,
                          p_avatar_url = None, p_role = i_role v,
                          p_created_at = now, p_updated_at = now\<rparr>] \<and>
           profiles_constraints users tbl' = None"
  using assms by (auto simp: insert_row_def Let_def split: option.splits)

lemma handle_new_user_Inr:
  assumes "handle_new_user u db now = Inr tbl'"
  shows "\<exists>r. tbl' = profiles db @ [r] \<and> p_id r = u_id u \<and> profiles_constraints (auth_users db) tbl' = None"
  using assms
  by (auto simp: handle_new_user_def Let_def split: option.splits dest!: insert_row_Inr)

lemma insert_auth_user_Inr:
  assumes "insert_auth_user u db now = Inr db'"
  shows "\<exists>r. auth_users db' = auth_users db @ [u] \<and> profiles db' = profiles db @ [r] \<and> p_id r = u_id u
            \<and> u_id u \<notin> set (map u_id (auth_users db))
            \<and> profiles_constraints (auth_users db') (profiles db') = None"
  using assms
  by (auto simp: insert_auth_user_def Let_def split: if_splits sum.splits dest!: handle_new_user_Inr)

lemma insert_auth_user_inv: "db_inv db \<Longrightarrow> insert_auth_user u db now = Inr db' \<Longrightarrow> db_inv db'"
  by (auto simp: db_inv_def dest!: insert_auth_user_Inr)

subsection \<open>What the rewriting with the policies gives\<close>

lemma rewrite_select: "rewrite_quals (using_quals Cmd_select) = Inl Policy_recursion"
  by (simp add: rewrite_quals_def using_quals_def profiles_policies_def map_filter_simps)

lemma rewrite_update: "rewrite_quals (using_quals Cmd_update) = Inl Policy_recursion"
  by (simp add: rewrite_quals_def using_quals_def profiles_policies_def map_filter_simps)

lemma rewrite_insert: "rewrite_quals (check_quals Cmd_insert) = Inr [Uid_equals_id]"
  by (simp add: rewrite_quals_def check_quals_def profiles_policies_def map_filter_simps)

lemma select_authenticated: "select_profiles_as (Some x) tbl whr = Inl Policy_recursion"
  by (simp add: select_profiles_as_def rewrite_select)

lemma select_anonymous: "select_profiles_as None tbl whr = Inr []"
  by (simp add: select_profiles_as_def)

lemma update_authenticated: "update_profiles_as (Some x) db now whr s = Inl Policy_recursion"
  by (simp add: update_profiles_as_def rewrite_update)

lemma update_anonymous: "update_profiles_as None db now whr s = Inr (profiles db)"
  by (simp add: update_profiles_as_def)

lemma insert_profile_as_eq:
  "insert_profile_as uid db now v =
     (if uid = Some (i_id v) then insert_row (auth_users db) (profiles db) now v
      else Inl Rls_violation)"
  by (cases uid) (auto simp: insert_profile_as_def rewrite_insert some_holds_def)

subsection \<open>The constraints are kept\<close>

lemma insert_profile_as_inv:
  "insert_profile_as uid db now v = Inr tbl \<Longrightarrow> profiles_constraints (auth_users db) tbl = None"
  by (auto simp: insert_profile_as_eq split: if_splits dest!: insert_row_Inr)

lemma update_rows_inv:
  "update_rows db now target check s = Inr tbl \<Longrightarrow> profiles_constraints (auth_users db) tbl = None"
  by (auto simp: update_rows_def Let_def split: if_splits option.splits)

lemma update_profiles_as_inv:
  "db_inv db \<Longrightarrow> update_profiles_as uid db now whr s = Inr tbl \<Longrightarrow>
   profiles_constraints (auth_users db) tbl = None"
  by (cases uid) (auto simp: update_anonymous update_authenticated db_inv_def)

lemma delete_auth_user_inv: "db_inv db \<Longrightarrow> db_inv (delete_auth_user x db)"
  by (auto simp: db_inv_def delete_auth_user_def constraints_None_iff distinct_map_filter)

lemma exec_stmt_inv: "db_inv db \<Longrightarrow> db_inv (exec_stmt st db)"
proof (cases st)
  case (Pair now stmt)
  assume inv: "db_inv db"
  show ?thesis
  proof (cases stmt)
    case (Insert_auth_user u)
    with Pair inv show ?thesis
      by (auto split: sum.splits dest: insert_auth_user_inv)
  next
    case (Delete_auth_user x)
    with Pair inv show ?thesis by (simp add: delete_auth_user_inv)
  next
    case (Insert_profile uid v)
    with Pair inv show ?thesis
      by (auto simp: db_inv_def split: sum.splits dest: insert_profile_as_inv)
  next
    case (Update_profiles uid whr s)
    with Pair inv update_profiles_as_inv[OF inv] show ?thesis
      by (auto simp: db_inv_def split: sum.splits)
  next
    case (Owner_update whr s)
    with Pair inv show ?thesis
      by (auto simp: db_inv_def update_profiles_owner_def split: sum.splits dest: update_rows_inv)
  qed
qed

lemma exec_stmts_inv: "db_inv db \<Longrightarrow> db_inv (exec_stmts sts db)"
  by (induction sts arbitrary: db) (auto simp: exec_stmt_inv)

lemma empty_database_inv: "db_inv empty_database"
  by (simp add: db_inv_def empty_database_def profiles_constraints_def)

lemma distinct_filter_le_1:
  "distinct (map p_id xs) \<Longrightarrow> length (filter (eq_id x) xs) \<le> 1"
  by (induction xs) (auto simp: filter_empty_conv image_iff eq_id_def)

lemma filter_key_empty: "x \<notin> p_id ` set xs \<Longrightarrow> filter (eq_id x) xs = []"
  by (induction xs) (auto simp: eq_id_def)

lemmas db_defs = exec_stmts.simps exec_stmt.simps insert_auth_user_def handle_new_user_def insert_row_def
  profiles_constraints_def empty_database_def cast_user_role_def Let_def

lemma example_db_eq:
  "example_db =
     \<lparr>auth_users = [alice, bob],
      profiles = [\<lparr>p_id = ''a1'', p_email = ''alice@x.com'', p_full_name = Some ''Alice'',
                    p_avatar_url = None, p_role = Role_user, p_created_at = 10, p_updated_at = 10\<rparr>,
                  \<lparr>p_id = ''b2'', p_email = ''bob@x.com'', p_full_name = Some '''',
                    p_avatar_url = None, p_role = Role_admin, p_created_at = 20, p_updated_at = 20\<rparr>]\<rparr>"
  by (simp add: example_db_def db_defs alice_def bob_def)

text \<open>
  Claim C2. In every database that a run of statements builds from the empty one, each
  user has at most one row of \<^verbatim>\<open>profiles\<close> with that user's id, and each row of \<^verbatim>\<open>profiles\<close>
  carries the id of an existing user. The trigger path creates exactly one row, whose id
  is the new user's id, and after it the client path cannot create a second row for that
  id: its insert is refused. An insert of the client path that succeeds is for the
  caller's own id, appends one row with that id, and no row with that id existed before.
  The row \<^verbatim>\<open>signUp\<close> gives to the insert has the id of the user the provider returned.
\<close>

theorem profile_unique_per_user:
  assumes "db = exec_stmts sts empty_database"
  shows "(\<forall>u\<in>set (auth_users db). length (filter (eq_id (u_id u)) (profiles db)) \<le> 1)
       \<and> (\<forall>r\<in>set (profiles db). \<exists>u\<in>set (auth_users db). u_id u = p_id r)
       \<and> (\<forall>db'. insert_auth_user u db now = Inr db' \<longrightarrow>
             (\<exists>r. profiles db' = profiles db @ [r] \<and> p_id r = u_id u
                  \<and> filter (eq_id (u_id u)) (profiles db') = [r]
                  \<and> (\<forall>uid' now' v'. i_id v' = u_id u \<longrightarrow>
                        (\<exists>e. insert_profile_as uid' db' now' v' = Inl e))))
       \<and> (\<forall>tbl. insert_profile_as uid db now v = Inr tbl \<longrightarrow>
             uid = Some (i_id v) \<and> filter (eq_id (i_id v)) (profiles db) = []
             \<and> (\<exists>r. tbl = profiles db @ [r] \<and> p_id r = i_id v))
       \<and> (\<forall>data usr. i_id (signUp_profile_row data usr) = user_id usr)"
proof -
  have inv: "db_inv db"
    using assms by (simp add: exec_stmts_inv empty_database_inv)
  then have d: "distinct (map p_id (profiles db))"
    and fk: "set (map p_id (profiles db)) \<subseteq> set (map u_id (auth_users db))"
    by (simp_all add: db_inv_def constraints_None_iff)
  have A: "\<forall>u\<in>set (auth_users db). length (filter (eq_id (u_id u)) (profiles db)) \<le> 1"
    using distinct_filter_le_1[OF d] by blast
  have B: "\<forall>r\<in>set (profiles db). \<exists>u\<in>set (auth_users db). u_id u = p_id r"
    using fk by (fastforce simp: image_iff subset_iff)
  have C: "\<exists>r. profiles db' = profiles db @ [r] \<and> p_id r = u_id u
                  \<and> filter (eq_id (u_id u)) (profiles db') = [r]
                  \<and> (\<forall>uid' now' v'. i_id v' = u_id u \<longrightarrow>
                        (\<exists>e. insert_profile_as uid' db' now' v' = Inl e))"
    if ok: "insert_auth_user u db now = Inr db'" for db'
  proof -
    from insert_auth_user_Inr[OF ok] obtain r where
      r: "profiles db' = profiles db @ [r]" "p_id r = u_id u"
      and c: "profiles_constraints (auth_users db') (profiles db') = None"
      by blast
    from c r have d': "distinct (map p_id (profiles db) @ [u_id u])"
      by (simp add: constraints_None_iff)
    then have "filter (eq_id (u_id u)) (profiles db) = []"
      by (simp add: filter_key_empty)
    with r have f: "filter (eq_id (u_id u)) (profiles db') = [r]" by (simp add: eq_id_def)
    have "\<exists>e. insert_profile_as uid' db' now' v' = Inl e" if "i_id v' = u_id u" for uid' now' v'
    proof (cases "insert_profile_as uid' db' now' v'")
      case (Inl e) then show ?thesis by blast
    next
      case (Inr tbl)
      then have "distinct (map p_id (profiles db') @ [i_id v'])"
        by (auto simp: insert_profile_as_eq constraints_None_iff split: if_splits dest!: insert_row_Inr)
      with that r have False by simp
      then show ?thesis ..
    qed
    with r f show ?thesis by blast
  qed
  have D: "uid = Some (i_id v) \<and> filter (eq_id (i_id v)) (profiles db) = []
             \<and> (\<exists>r. tbl = profiles db @ [r] \<and> p_id r = i_id v)"
    if ok: "insert_profile_as uid db now v = Inr tbl" for tbl
  proof -
    from ok have u: "uid = Some (i_id v)" and ir: "insert_row (auth_users db) (profiles db) now v = Inr tbl"
      by (auto simp: insert_profile_as_eq split: if_splits)
    from insert_row_Inr[OF ir] obtain r where r: "tbl = profiles db @ [r]" "p_id r = i_id v"
      and c: "profiles_constraints (auth_users db) tbl = None" by auto
    from c r have "distinct (map p_id (profiles db) @ [i_id v])" by (simp add: constraints_None_iff)
    then have "filter (eq_id (i_id v)) (profiles db) = []" by (simp add: filter_key_empty)
    with u r show ?thesis by blast
  qed
  have E: "\<forall>data usr. i_id (signUp_profile_row data usr) = user_id usr"
    by (simp add: signUp_profile_row_def)
  from A B C D E show ?thesis by blast
qed

theorem profile_unique_per_user_witness:
  "example_db = exec_stmts [(10, Insert_auth_user alice), (20, Insert_auth_user bob)] empty_database
   \<and> alice \<in> set (auth_users example_db)
   \<and> length (filter (eq_id (u_id alice)) (profiles example_db)) \<le> 1
   \<and> insert_auth_user carol_row example_db 30 =
       Inr \<lparr>auth_users = [alice, bob, carol_row],
            profiles = profiles example_db @
              [\<lparr>p_id = ''c3'', p_email = ''carol@x.com'', p_full_name = Some ''Carol'',
                p_avatar_url = None, p_role = Role_user, p_created_at = 30, p_updated_at = 30\<rparr>]\<rparr>
   \<and> insert_profile_as (Some ''c3'')
        \<lparr>auth_users = [alice, bob, carol_row],
         profiles = profiles example_db @
           [\<lparr>p_id = ''c3'', p_email = ''carol@x.com'', p_full_name = Some ''Carol'',
             p_avatar_url = None, p_role = Role_user, p_created_at = 30, p_updated_at = 30\<rparr>]\<rparr>
        31 carol_insert = Inl (Unique_violation ''profiles_pkey'')"
proof -
  have e: "example_db = exec_stmts [(10, Insert_auth_user alice), (20, Insert_auth_user bob)] empty_database"
    by (simp add: example_db_def)
  have i: "insert_auth_user carol_row example_db 30 =
       Inr \<lparr>auth_users = [alice, bob, carol_row],
            profiles = profiles example_db @
              [\<lparr>p_id = ''c3'', p_email = ''carol@x.com'', p_full_name = Some ''Carol'',
                p_avatar_url = None, p_role = Role_user, p_created_at = 30, p_updated_at = 30\<rparr>]\<rparr>"
    by (simp add: example_db_eq db_defs alice_def bob_def carol_row_def)
  have c: "insert_profile_as (Some ''c3'')
        \<lparr>auth_users = [alice, bob, carol_row],
         profiles = profiles example_db @
           [\<lparr>p_id = ''c3'', p_email = ''carol@x.com'', p_full_name = Some ''Carol'',
             p_avatar_url = None, p_role = Role_user, p_created_at = 30, p_updated_at = 30\<rparr>]\<rparr>
        31 carol_insert = Inl (Unique_violation ''profiles_pkey'')"
    by (simp add: example_db_eq insert_profile_as_eq db_defs carol_insert_def)
  have m: "alice \<in> set (auth_users example_db)"
    by (simp add: example_db_eq)
  from profile_unique_per_user[OF e, of carol_row 30 "Some ''c3''" carol_insert] m
  have "length (filter (eq_id (u_id alice)) (profiles example_db)) \<le> 1"
    by blast
  with e i c m show ?thesis by simp
qed

subsection \<open>Updates by an authenticated caller\<close>

lemma update_owner_example:
  "update_profiles_owner example_db 30 (eq_id ''a1'') (rename ''X'') =
     Inr [\<lparr>p_id = ''a1'', p_email = ''alice@x.com'', p_full_name = Some ''X'',
            p_avatar_url = None, p_role = Role_user, p_created_at = 10, p_updated_at = 30\<rparr>,
          \<lparr>p_id = ''b2'', p_email = ''bob@x.com'', p_full_name = Some '''',
            p_avatar_url = None, p_role = Role_admin, p_created_at = 20, p_updated_at = 20\<rparr>]"
  by (simp add: example_db_eq update_profiles_owner_def update_rows_def Let_def update_new_row_def
        update_updated_at_column_def apply_set_def rename_def eq_id_def profiles_constraints_def
        alice_def bob_def)

text \<open>
  Claim C7, where the migration fails it. Every update of \<^verbatim>\<open>profiles\<close> by an
  authenticated caller is refused, whatever the caller's role, the \<^verbatim>\<open>WHERE\<close> clause and
  the rows: the update and select policies are rewritten into the statement, the admin
  policies select from \<^verbatim>\<open>profiles\<close>, and the statement fails with 42P17 and changes no
  row. So the caller \<open>b2\<close>, whose own row has the role admin, cannot update the row of
  \<open>a1\<close>; and the denial of a cross-user update to a caller who is no admin is this
  error, which the caller's update of the caller's own row meets as well. The same update
  is accepted when no policy applies (the owner of the table).
\<close>

theorem admin_update_refused:
  "update_profiles_as (Some x) db now whr s = Inl Policy_recursion
   \<and> exec_stmt (now, Update_profiles (Some x) whr s) db = db
   \<and> filter (eq_id ''b2'') (profiles example_db) =
       [\<lparr>p_id = ''b2'', p_email = ''bob@x.com'', p_full_name = Some '''',
         p_avatar_url = None, p_role = Role_admin, p_created_at = 20, p_updated_at = 20\<rparr>]
   \<and> update_profiles_as (Some ''b2'') example_db 30 (eq_id ''a1'') (rename ''X'') = Inl Policy_recursion
   \<and> update_profiles_as (Some ''a1'') example_db 30 (eq_id ''a1'') (rename ''X'') = Inl Policy_recursion
   \<and> update_profiles_owner example_db 30 (eq_id ''a1'') (rename ''X'') =
       Inr [\<lparr>p_id = ''a1'', p_email = ''alice@x.com'', p_full_name = Some ''X'',
              p_avatar_url = None, p_role = Role_user, p_created_at = 10, p_updated_at = 30\<rparr>,
            \<lparr>p_id = ''b2'', p_email = ''bob@x.com'', p_full_name = Some '''',
              p_avatar_url = None, p_role = Role_admin, p_created_at = 20, p_updated_at = 20\<rparr>]"
proof -
  have f: "filter (eq_id ''b2'') (profiles example_db) =
     [\<lparr>p_id = ''b2'', p_email = ''bob@x.com'', p_full_name = Some '''',
       p_avatar_url = None, p_role = Role_admin, p_created_at = 20, p_updated_at = 20\<rparr>]"
    by (simp add: example_db_eq eq_id_def)
  have x: "exec_stmt (now, Update_profiles (Some x) whr s) db = db"
    by (simp add: update_authenticated)
  from update_authenticated x f update_authenticated update_authenticated update_owner_example
  show ?thesis by (intro conjI)
qed

subsection \<open>The trigger on update\<close>

lemma update_rows_updated_at:
  assumes "update_rows db now target check s = Inr tbl'"
  shows "list_all2 (\<lambda>old new. if target old
                               then p_updated_at new = now
                                    \<and> (p_updated_at old < now \<longrightarrow> p_updated_at old < p_updated_at new)
                               else new = old)
           (profiles db) tbl'"
  using assms
  by (auto simp: update_rows_def Let_def list_all2_map2 list_all2_same update_new_row_def
        update_updated_at_column_def split: if_splits option.splits)

text \<open>
  Claim C5, as amended. After a successful update of rows of \<^verbatim>\<open>profiles\<close>, each
  updated row has \<^verbatim>\<open>updated_at\<close> equal to the database's current time \<^verbatim>\<open>NOW()\<close>,
  whatever the \<^verbatim>\<open>SET\<close> list assigned to that column, so it has strictly increased
  whenever \<^verbatim>\<open>NOW()\<close> is later than the stored value; the rows that were not updated are
  as they were. The update is one that the policies do not refuse: an update by the owner
  of the table, which updates the rows its \<^verbatim>\<open>WHERE\<close> clause selects.
\<close>

theorem updated_at_set_to_now:
  "update_profiles_owner db now whr s = Inr tbl' \<longrightarrow>
     list_all2 (\<lambda>old new. if whr old
                           then p_updated_at new = now
                                \<and> (p_updated_at old < now \<longrightarrow> p_updated_at old < p_updated_at new)
                           else new = old)
       (profiles db) tbl'"
  using update_rows_updated_at[of db now whr "\<lambda>n. True" s tbl']
  by (simp add: update_profiles_owner_def)

theorem updated_at_set_to_now_witness:
  "update_profiles_owner example_db 30 (eq_id ''a1'') ((rename ''Al'')\<lparr>set_updated_at := Some 5\<rparr>) =
     Inr [\<lparr>p_id = ''a1'', p_email = ''alice@x.com'', p_full_name = Some ''Al'',
            p_avatar_url = None, p_role = Role_user, p_created_at = 10, p_updated_at = 30\<rparr>,
          \<lparr>p_id = ''b2'', p_email = ''bob@x.com'', p_full_name = Some '''',
            p_avatar_url = None, p_role = Role_admin, p_created_at = 20, p_updated_at = 20\<rparr>]
   \<and> list_all2 (\<lambda>old new. if eq_id ''a1'' old
                            then p_updated_at new = 30
                                 \<and> (p_updated_at old < 30 \<longrightarrow> p_updated_at old < p_updated_at new)
                            else new = old)
        (profiles example_db)
        [\<lparr>p_id = ''a1'', p_email = ''alice@x.com'', p_full_name = Some ''Al'',
           p_avatar_url = None, p_role = Role_user, p_created_at = 10, p_updated_at = 30\<rparr>,
         \<lparr>p_id = ''b2'', p_email = ''bob@x.com'', p_full_name = Some '''',
           p_avatar_url = None, p_role = Role_admin, p_created_at = 20, p_updated_at = 20\<rparr>]
   \<and> map p_updated_at (profiles example_db) = [10, 20]"
proof -
  have u: "update_profiles_owner example_db 30 (eq_id ''a1'') ((rename ''Al'')\<lparr>set_updated_at := Some 5\<rparr>) =
     Inr [\<lparr>p_id = ''a1'', p_email = ''alice@x.com'', p_full_name = Some ''Al'',
            p_avatar_url = None, p_role = Role_user, p_created_at = 10, p_updated_at = 30\<rparr>,
          \<lparr>p_id = ''b2'', p_email = ''bob@x.com'', p_full_name = Some '''',
            p_avatar_url = None, p_role = Role_admin, p_created_at = 20, p_updated_at = 20\<rparr>]"
    by (simp add: example_db_eq update_profiles_owner_def update_rows_def Let_def update_new_row_def
        update_updated_at_column_def apply_set_def rename_def eq_id_def profiles_constraints_def
        alice_def bob_def)
  have m: "map p_updated_at (profiles example_db) = [10, 20]"
    by (simp add: example_db_eq)
  from updated_at_set_to_now[rule_format, OF u] u m show ?thesis by (intro conjI)
qed

text \<open>
  The claim that \<^verbatim>\<open>updated_at\<close> strictly increases on every successful update fails
  for two updates in one transaction, which have the same \<^verbatim>\<open>NOW()\<close>: the owner updates
  the row of user \<open>a1\<close> at time 30, which sets \<^verbatim>\<open>updated_at\<close> to 30, and updates it
  again at time 30: both updates succeed and the second leaves \<^verbatim>\<open>updated_at\<close> at 30.
\<close>

theorem updated_at_strict_counterexample:
  "update_profiles_owner example_db 30 (eq_id ''a1'') (rename ''Al'') =
     Inr [\<lparr>p_id = ''a1'', p_email = ''alice@x.com'', p_full_name = Some ''Al'',
            p_avatar_url = None, p_role = Role_user, p_created_at = 10, p_updated_at = 30\<rparr>,
          \<lparr>p_id = ''b2'', p_email = ''bob@x.com'', p_full_name = Some '''',
            p_avatar_url = None, p_role = Role_admin, p_created_at = 20, p_updated_at = 20\<rparr>]
   \<and> update_profiles_owner
        (example_db\<lparr>profiles :=
           [\<lparr>p_id = ''a1'', p_email = ''alice@x.com'', p_full_name = Some ''Al'',
              p_avatar_url = None, p_role = Role_user, p_created_at = 10, p_updated_at = 30\<rparr>,
            \<lparr>p_id = ''b2'', p_email = ''bob@x.com'', p_full_name = Some '''',
              p_avatar_url = None, p_role = Role_admin, p_created_at = 20, p_updated_at = 20\<rparr>]\<rparr>)
        30 (eq_id ''a1'') (rename ''Alice A.'') =
     Inr [\<lparr>p_id = ''a1'', p_email = ''alice@x.com'', p_full_name = Some ''Alice A.'',
            p_avatar_url = None, p_role = Role_user, p_created_at = 10, p_updated_at = 30\<rparr>,
          \<lparr>p_id = ''b2'', p_email = ''bob@x.com'', p_full_name = Some '''',
            p_avatar_url = None, p_role = Role_admin, p_created_at = 20, p_updated_at = 20\<rparr>]"
  by (simp add: example_db_eq update_profiles_owner_def update_rows_def Let_def update_new_row_def
        update_updated_at_column_def apply_set_def rename_def eq_id_def profiles_constraints_def
        alice_def bob_def)

section \<open>The client: sign-up, sign-out, sign-in\<close>

text \<open>
  Claim C1. When the provider's \<^verbatim>\<open>signUp\<close> resolves with a user and no error, and the
  insert of the profile row then resolves with an error, \<^verbatim>\<open>AuthService.signUp\<close> writes
  that error to the console (\<^verbatim>\<open>Profile creation error:\<close>) and returns the created user
  and the session with \<^verbatim>\<open>error\<close> = \<^verbatim>\<open>null\<close>.
\<close>

theorem signUp_profile_insert_failure_not_surfaced:
  assumes "auth_signUp supabase (signUp_credentials data) (backend w)
             = (Resolved ((Some u, sess), None), s1)"
    and "profiles_insert supabase (signUp_profile_row data u) s1
             = (Resolved (d, Some profileError), s2)"
  shows "signUp supabase data w =
           (\<lparr>user = Some (as_AuthUser u None), session = sess, error = None\<rparr>,
            w\<lparr>backend := s2,
              console := console w @ [Console_error ''Profile creation error:'' (Some profileError)]\<rparr>)"
  using assms by (simp add: signUp_def await_def console_error_def)

theorem signUp_profile_insert_failure_witness:
  "signUp (scripted (all_ok\<lparr>on_insert := Resolved ((), Some duplicate_key)\<rparr>)) carol_signup world0 =
     (\<lparr>user = Some (as_AuthUser carol None), session = Some carol_session, error = None\<rparr>,
      world0\<lparr>backend := (),
             console := console world0 @ [Console_error ''Profile creation error:'' (Some duplicate_key)]\<rparr>)"
  by (rule signUp_profile_insert_failure_not_surfaced)
     (simp_all add: scripted_def all_ok_def)

lemma signOut_succeeded:
  assumes "signOut supabase w = (None, w1)"
  shows "\<exists>d. auth_signOut supabase (backend w) = (Resolved (d, None), backend w1)"
  using assms
  by (auto simp: signOut_def await_def console_error_def
           split: prod.splits outcome.splits option.splits)

lemma getCurrentUser_no_user:
  assumes "\<forall>u. fst (auth_getUser supabase (backend w)) \<noteq> Resolved (Some u, None)"
  shows "fst (getCurrentUser supabase w) = None"
  using assms
  by (auto simp: getCurrentUser_def await_def split: prod.splits outcome.splits option.splits)

lemma callback_no_user:
  assumes "\<forall>u. fst (auth_getUser supabase (backend w)) \<noteq> Resolved (Some u, None)"
  shows "ctx_user (fst (onAuthStateChange_callback supabase event sess st w)) = None
       \<and> ctx_isAdmin (fst (onAuthStateChange_callback supabase event sess st w)) = False"
proof (cases sess)
  case None
  then show ?thesis by (simp add: onAuthStateChange_callback_def)
next
  case (Some s)
  let ?w0 = "w\<lparr>console := console w @ [Console_log ''Auth state changed:'' event (user_email (session_user s))]\<rparr>"
  have "fst (getCurrentUser supabase ?w0) = None"
    using assms by (intro getCurrentUser_no_user) simp
  with Some show ?thesis
    by (cases "getCurrentUser supabase ?w0")
       (simp add: onAuthStateChange_callback_def profile_role_is_def)
qed

text \<open>
  Claim C6. After a sign-out that succeeded (\<^verbatim>\<open>AuthService.signOut\<close> returned
  \<^verbatim>\<open>error\<close> = \<^verbatim>\<open>null\<close>), on a provider whose successful \<^verbatim>\<open>signOut\<close> ends the session,
  \<^verbatim>\<open>getCurrentUser\<close> returns \<^verbatim>\<open>null\<close> and \<^verbatim>\<open>isAdmin\<close> returns \<^verbatim>\<open>false\<close>; the callback of
  the session context, on any event and whatever session the event carries, leaves the
  cached user \<^verbatim>\<open>null\<close> and the admin flag \<^verbatim>\<open>false\<close>; and on the sign-out event, which
  carries no session, it also sets the session to \<^verbatim>\<open>null\<close> and loading to \<^verbatim>\<open>false\<close>.
\<close>

theorem signOut_then_no_current_user:
  assumes "signOut_ends_session supabase"
    and "signOut supabase w = (None, w1)"
  shows "fst (getCurrentUser supabase w1) = None
       \<and> fst (isAdmin supabase w1) = False
       \<and> (\<forall>event sess st.
             ctx_user (fst (onAuthStateChange_callback supabase event sess st w1)) = None
           \<and> ctx_isAdmin (fst (onAuthStateChange_callback supabase event sess st w1)) = False)
       \<and> fst (onAuthStateChange_callback supabase ''SIGNED_OUT'' None st w1) =
           st\<lparr>ctx_session := None, ctx_user := None, ctx_isAdmin := False, ctx_loading := False\<rparr>"
proof -
  from signOut_succeeded[OF assms(2)] obtain d where
    "auth_signOut supabase (backend w) = (Resolved (d, None), backend w1)" ..
  with assms(1) have gone: "\<forall>u. fst (auth_getUser supabase (backend w1)) \<noteq> Resolved (Some u, None)"
    unfolding signOut_ends_session_def by blast
  have g: "fst (getCurrentUser supabase w1) = None"
    using gone by (rule getCurrentUser_no_user)
  then have a: "fst (isAdmin supabase w1) = False"
    by (cases "getCurrentUser supabase w1") (simp add: isAdmin_def hasRole_def profile_role_is_def)
  have c: "\<forall>event sess st.
             ctx_user (fst (onAuthStateChange_callback supabase event sess st w1)) = None
           \<and> ctx_isAdmin (fst (onAuthStateChange_callback supabase event sess st w1)) = False"
    using callback_no_user[OF gone] by blast
  have e: "fst (onAuthStateChange_callback supabase ''SIGNED_OUT'' None st w1) =
           st\<lparr>ctx_session := None, ctx_user := None, ctx_isAdmin := False, ctx_loading := False\<rparr>"
    by (simp add: onAuthStateChange_callback_def)
  from g a c e show ?thesis by (intro conjI)
qed

theorem signOut_then_no_current_user_witness:
  "signOut_ends_session session_backend
   \<and> fst (getCurrentUser session_backend signed_in_world) = Some (as_AuthUser carol (Some carol_profile))
   \<and> signOut session_backend signed_in_world = (None, signed_in_world\<lparr>backend := None\<rparr>)
   \<and> fst (getCurrentUser session_backend (signed_in_world\<lparr>backend := None\<rparr>)) = None
   \<and> fst (isAdmin session_backend (signed_in_world\<lparr>backend := None\<rparr>)) = False
   \<and> fst (onAuthStateChange_callback session_backend ''SIGNED_OUT'' None
            \<lparr>ctx_user = Some (as_AuthUser carol (Some admin_profile)), ctx_session = Some carol_session,
             ctx_loading = True, ctx_isAdmin = True\<rparr> (signed_in_world\<lparr>backend := None\<rparr>)) =
       \<lparr>ctx_user = None, ctx_session = None, ctx_loading = False, ctx_isAdmin = False\<rparr>"
proof -
  have c: "signOut_ends_session session_backend"
    by (simp add: signOut_ends_session_def session_backend_def scripted_def)
  have b: "fst (getCurrentUser session_backend signed_in_world) = Some (as_AuthUser carol (Some carol_profile))"
    by (simp add: getCurrentUser_def getUserWithProfile_def await_def session_backend_def
          scripted_def all_ok_def signed_in_world_def)
  have so: "signOut session_backend signed_in_world = (None, signed_in_world\<lparr>backend := None\<rparr>)"
    by (simp add: signOut_def await_def session_backend_def scripted_def)
  note th = signOut_then_no_current_user[OF c so]
  from th have g: "fst (getCurrentUser session_backend (signed_in_world\<lparr>backend := None\<rparr>)) = None"
    and a: "fst (isAdmin session_backend (signed_in_world\<lparr>backend := None\<rparr>)) = False"
    by blast+
  from th[of "\<lparr>ctx_user = Some (as_AuthUser carol (Some admin_profile)), ctx_session = Some carol_session,
             ctx_loading = True, ctx_isAdmin = True\<rparr>"]
  have e: "fst (onAuthStateChange_callback session_backend ''SIGNED_OUT'' None
            \<lparr>ctx_user = Some (as_AuthUser carol (Some admin_profile)), ctx_session = Some carol_session,
             ctx_loading = True, ctx_isAdmin = True\<rparr> (signed_in_world\<lparr>backend := None\<rparr>)) =
       \<lparr>ctx_user = None, ctx_session = None, ctx_loading = False, ctx_isAdmin = False\<rparr>"
    by simp
  from c b so g a e show ?thesis by (intro conjI)
qed

lemma hosted_select_single_row:
  assumes "hosted_select_single x h = (Resolved (Some p, None), h')"
  shows "\<exists>r\<in>set (profiles (h_db h)).
           p_id r = x \<and> p = \<lparr>full_name = p_full_name r, avatar_url = p_avatar_url r, role = p_role r\<rparr>"
proof -
  from assms obtain rows r where
    sel: "select_profiles_as (h_uid h) (profiles (h_db h)) (eq_id x) = Inr rows"
    and s: "single rows = Inr r"
    and p: "p = \<lparr>full_name = p_full_name r, avatar_url = p_avatar_url r, role = p_role r\<rparr>"
    by (auto simp: hosted_select_single_def split: sum.splits)
  from s have "r \<in> set rows"
    by (auto simp: single_def split: list.splits)
  with sel have "r \<in> set (profiles (h_db h))" "p_id r = x"
    by (cases "h_uid h"; auto simp: select_profiles_as_def eq_id_def split: sum.splits)+
  with p show ?thesis by blast
qed

text \<open>
  Claim C8, as amended. After a sign-in that succeeded, when the following \<^verbatim>\<open>getUser\<close>
  answers with a user: if the select of the profile (for the id of the signed-in user)
  resolves without an error, the user returned has the selected profile attached; if it
  resolves with an error, the user is returned without a profile and the error is only
  written to the console. In both cases \<^verbatim>\<open>error\<close> is \<^verbatim>\<open>null\<close>. On the hosted backend a
  selected profile holds \<^verbatim>\<open>full_name\<close>, \<^verbatim>\<open>avatar_url\<close> and \<^verbatim>\<open>role\<close> of a row with that id.
\<close>

theorem signIn_attaches_profile:
  assumes "auth_signInWithPassword supabase (si_email data) (si_password data) (backend w)
             = (Resolved ((Some u, sess), None), s1)"
    and "auth_getUser supabase s1 = (Resolved (Some u', None), s2)"
  shows "(\<forall>p s3. profiles_select_single supabase (user_id u) s2 = (Resolved (p, None), s3) \<longrightarrow>
            signIn supabase data w =
              (\<lparr>user = Some (as_AuthUser u' p), session = sess, error = None\<rparr>, w\<lparr>backend := s3\<rparr>))
       \<and> (\<forall>p pe s3. profiles_select_single supabase (user_id u) s2 = (Resolved (p, Some pe), s3) \<longrightarrow>
            signIn supabase data w =
              (\<lparr>user = Some (as_AuthUser u' None), session = sess, error = None\<rparr>,
               w\<lparr>backend := s3, console := console w @ [Console_error ''Profile fetch error:'' (Some pe)]\<rparr>))
       \<and> (\<forall>x h p h'. hosted_select_single x (h :: 'p hosted) = (Resolved (Some p, None), h') \<longrightarrow>
            (\<exists>r\<in>set (profiles (h_db h)).
               p_id r = x \<and> p = \<lparr>full_name = p_full_name r, avatar_url = p_avatar_url r, role = p_role r\<rparr>))"
  using assms hosted_select_single_row
  by (auto simp: signIn_def getUserWithProfile_def await_def console_error_def)

theorem signIn_attaches_profile_witness:
  "signIn (scripted all_ok) carol_signin world0 =
     (\<lparr>user = Some (as_AuthUser carol (Some carol_profile)), session = Some carol_session, error = None\<rparr>,
      world0\<lparr>backend := ()\<rparr>)"
proof -
  have a: "auth_signInWithPassword (scripted all_ok) (si_email carol_signin) (si_password carol_signin)
             (backend world0) = (Resolved ((Some carol, Some carol_session), None), ())"
    and b: "auth_getUser (scripted all_ok) () = (Resolved (Some carol, None), ())"
    and c: "profiles_select_single (scripted all_ok) (user_id carol) () = (Resolved (Some carol_profile, None), ())"
    by (simp_all add: scripted_def all_ok_def)
  from signIn_attaches_profile[OF a b] c show ?thesis by blast
qed

text \<open>
  The claim that every successful sign-in returns the user with the profile attached
  fails when the select of the profile resolves with an error: the sign-in returns
  \<^verbatim>\<open>error\<close> = \<^verbatim>\<open>null\<close> and the user without a profile.
\<close>

theorem signIn_without_profile_counterexample:
  "signIn (scripted (all_ok\<lparr>on_select_single := Resolved (None, Some no_row)\<rparr>)) carol_signin world0 =
     (\<lparr>user = Some \<lparr>user_id = ''c3'', user_email = Some ''carol@x.com'', profile = None\<rparr>,
       session = Some carol_session, error = None\<rparr>,
      world0\<lparr>console := [Console_error ''Profile fetch error:'' (Some no_row)]\<rparr>)"
  by (simp add: signIn_def getUserWithProfile_def await_def console_error_def scripted_def
        all_ok_def carol_signin_def world0_def as_AuthUser_def carol_def)

subsection \<open>The requests of a sign-up\<close>

lemma await_observe:
  "await (observe c f) w =
     (case f (fst (backend w)) of
        (r, s') \<Rightarrow> (r, w\<lparr>backend := (s', snd (backend w) @ [(c, failure r)])\<rparr>))"
  by (simp add: await_def observe_def split: prod.splits)

lemma recording_simps:
  "auth_signUp (recording base) = (\<lambda>c. observe (Call_signUp c) (auth_signUp base c))"
  "auth_signInWithPassword (recording base) =
     (\<lambda>e p. observe (Call_signInWithPassword e p) (auth_signInWithPassword base e p))"
  "auth_signOut (recording base) = observe Call_signOut (auth_signOut base)"
  "auth_getSession (recording base) = observe Call_getSession (auth_getSession base)"
  "auth_getUser (recording base) = observe Call_getUser (auth_getUser base)"
  "auth_updateUser (recording base) = (\<lambda>p. observe (Call_updateUser p) (auth_updateUser base p))"
  "auth_resetPasswordForEmail (recording base) =
     (\<lambda>e r. observe (Call_resetPasswordForEmail e r) (auth_resetPasswordForEmail base e r))"
  "profiles_insert (recording base) = (\<lambda>v. observe (Call_insert v) (profiles_insert base v))"
  "profiles_select_single (recording base) =
     (\<lambda>x. observe (Call_select_single x) (profiles_select_single base x))"
  "profiles_update_eq_id (recording base) =
     (\<lambda>s x. observe (Call_update s x) (profiles_update_eq_id base s x))"
  by (simp_all add: recording_def)

lemma signUp_trace:
  "\<exists>e. trace (snd (signUp (recording base) data (fresh w))) = [(Call_signUp (signUp_credentials data), e)]
     \<or> (\<exists>u e'. trace (snd (signUp (recording base) data (fresh w))) =
           [(Call_signUp (signUp_credentials data), e), (Call_insert (signUp_profile_row data u), e')])"
  by (auto simp: signUp_def recording_simps await_observe trace_def fresh_def console_error_def
           split: prod.splits outcome.splits option.splits)

text \<open>
  Claim C10. The requests that the \<^verbatim>\<open>signUp\<close> of the session context sends, whatever
  its arguments and whatever the backend answers, carry the role \<^verbatim>\<open>user\<close>: the first
  request is the provider's \<^verbatim>\<open>signUp\<close> with \<^verbatim>\<open>options.data.role\<close> = \<^verbatim>\<open>'user'\<close>, and every
  insert into \<^verbatim>\<open>profiles\<close> has the role \<^verbatim>\<open>user\<close>. The operation has no role argument.
\<close>

theorem AuthProvider_signUp_role_user:
  "(\<forall>ev\<in>set (trace (snd (snd (AuthProvider_signUp (recording base) email password fullName st (fresh w))))).
      case fst ev of
        Call_signUp c \<Rightarrow> map_of (c_options_data c) ''role'' = Some ''user''
      | Call_insert v \<Rightarrow> i_role v = Role_user
      | _ \<Rightarrow> False)
   \<and> (\<exists>e. hd (trace (snd (snd (AuthProvider_signUp (recording base) email password fullName st (fresh w)))))
           = (Call_signUp \<lparr>c_email = email, c_password = password,
                           c_options_data = options_data fullName Role_user\<rparr>, e))"
proof -
  let ?data = "\<lparr>su_email = email, su_password = password, su_fullName = fullName,
                 su_role = Some Role_user\<rparr>"
  have t: "trace (snd (snd (AuthProvider_signUp (recording base) email password fullName st (fresh w))))
           = trace (snd (signUp (recording base) ?data (fresh w)))"
    by (simp add: AuthProvider_signUp_def Let_def split: prod.splits option.splits)
  have r: "map_of (c_options_data (signUp_credentials ?data)) ''role'' = Some ''user''"
    by (simp add: signUp_credentials_def options_data_def role_or_default_def split: option.splits)
  have c: "signUp_credentials ?data = \<lparr>c_email = email, c_password = password,
                           c_options_data = options_data fullName Role_user\<rparr>"
    by (simp add: signUp_credentials_def role_or_default_def)
  have i: "i_role (signUp_profile_row ?data u) = Role_user" for u
    by (simp add: signUp_profile_row_def role_or_default_def)
  from signUp_trace[of base ?data w] show ?thesis
    unfolding t using r c i by auto
qed

theorem AuthProvider_signUp_role_user_witness:
  "trace (snd (snd (AuthProvider_signUp (recording (scripted all_ok)) ''carol@x.com'' ''secret1''
                     (Some ''Carol'') initial_AuthState (fresh world0)))) =
     [(Call_signUp \<lparr>c_email = ''carol@x.com'', c_password = ''secret1'',
                    c_options_data = [(''full_name'', ''Carol''), (''role'', ''user'')]\<rparr>, None),
      (Call_insert \<lparr>i_id = ''c3'', i_email = Some ''carol@x.com'', i_full_name = Some ''Carol'',
                    i_role = Role_user\<rparr>, None)]"
  using AuthProvider_signUp_role_user[of "scripted all_ok :: unit supabase" "''carol@x.com''" "''secret1''"
          "Some ''Carol''" initial_AuthState world0]
  by (simp add: AuthProvider_signUp_def signUp_def recording_simps await_observe trace_def fresh_def
        scripted_def all_ok_def failure_def signUp_credentials_def signUp_profile_row_def
        options_data_def role_or_default_def or_null_def carol_def world0_def)

section \<open>The role stored at sign-up, and the fetch of the profile\<close>

lemma distinct_key_filter:
  "distinct (map p_id xs) \<Longrightarrow> x \<in> set xs \<Longrightarrow> filter (eq_id (p_id x)) xs = [x]"
proof (induction xs)
  case Nil
  then show ?case by simp
next
  case (Cons a xs)
  show ?case
  proof (cases "x = a")
    case True
    with Cons.prems have "p_id a \<notin> p_id ` set xs" by simp
    then have "filter (eq_id (p_id a)) xs = []" by (rule filter_key_empty)
    moreover have "eq_id (p_id a) a" by (simp add: eq_id_def)
    ultimately show ?thesis using True by simp
  next
    case False
    with Cons.prems have x: "x \<in> set xs" and d: "distinct (map p_id xs)"
      and n: "p_id a \<notin> p_id ` set xs" by simp_all
    from x n have "p_id a \<noteq> p_id x" by (metis imageI)
    then have "\<not> eq_id (p_id x) a" by (simp add: eq_id_def)
    with Cons.IH[OF d x] show ?thesis by simp
  qed
qed

lemma handle_new_user_role:
  assumes "map_of (u_raw_user_meta_data row) ''role'' = Some ''user''"
    and "handle_new_user row db now = Inr tbl'"
  shows "\<exists>r. tbl' = profiles db @ [r] \<and> p_id r = u_id row \<and> p_role r = Role_user"
  using assms
  by (auto simp: handle_new_user_def Let_def cast_user_role_def dest!: insert_row_Inr)

lemma insert_auth_user_role:
  assumes "map_of (u_raw_user_meta_data row) ''role'' = Some ''user''"
    and "insert_auth_user row db now = Inr db'"
  shows "\<exists>r. r \<in> set (profiles db') \<and> p_id r = u_id row \<and> p_role r = Role_user"
  using assms
  by (auto simp: insert_auth_user_def Let_def split: if_splits sum.splits
           dest!: handle_new_user_role)

lemma options_data_role: "map_of (options_data n r) ''role'' = Some (role_label r)"
  by (cases n) (simp_all add: options_data_def)

lemma stored_role_user:
  assumes n: "su_role data = None"
    and meta: "u_raw_user_meta_data row = c_options_data (signUp_credentials data)"
    and ok: "insert_auth_user row db now = Inr db'"
  shows "\<exists>r. filter (eq_id (u_id row)) (profiles db') = [r] \<and> p_role r = Role_user"
proof -
  from n meta have m: "map_of (u_raw_user_meta_data row) ''role'' = Some ''user''"
    by (simp add: signUp_credentials_def options_data_role role_or_default_def)
  from insert_auth_user_role[OF m ok] obtain r where
    r: "r \<in> set (profiles db')" "p_id r = u_id row" "p_role r = Role_user" by blast
  from insert_auth_user_Inr[OF ok] have "distinct (map p_id (profiles db'))"
    by (auto simp: constraints_None_iff)
  from distinct_key_filter[OF this r(1)] r show ?thesis by auto
qed

lemma cast_user_role_labels:
  "cast_user_role s \<noteq> None \<longleftrightarrow> s \<in> {''user'', ''admin'', ''instructor''}"
  by (simp add: cast_user_role_def)

lemma insert_auth_user_bad_role:
  assumes "map_of (u_raw_user_meta_data row) ''role'' = Some s" "cast_user_role s = None"
  shows "\<exists>e. insert_auth_user row db now = Inl e"
  using assms by (simp add: insert_auth_user_def handle_new_user_def Let_def)

lemma signUp_trace_default_role:
  assumes "su_role data = None"
  shows "\<forall>ev\<in>set (trace (snd (signUp (recording base) data (fresh w)))).
           case fst ev of
             Call_signUp c \<Rightarrow> map_of (c_options_data c) ''role'' = Some ''user''
           | Call_insert v \<Rightarrow> i_role v = Role_user
           | _ \<Rightarrow> False"
proof -
  have r: "map_of (c_options_data (signUp_credentials data)) ''role'' = Some ''user''"
    using assms
    by (simp add: signUp_credentials_def options_data_def role_or_default_def split: option.splits)
  have i: "i_role (signUp_profile_row data u) = Role_user" for u
    using assms by (simp add: signUp_profile_row_def role_or_default_def)
  from signUp_trace[of base data w] show ?thesis
    using r i by auto
qed

section \<open>Requests of an authenticated user on the hosted backend\<close>

lemma hosted_fields:
  "auth_getUser (hosted auth) = auth_getUser auth"
  "profiles_select_single (hosted auth) = hosted_select_single"
  "profiles_update_eq_id (hosted auth) = hosted_update"
  by (simp_all add: hosted_def)

lemma getUser_reads_db: "getUser_reads auth \<Longrightarrow> auth_getUser auth h = (r, h') \<Longrightarrow> h_db h' = h_db h"
  by (metis getUser_reads_def snd_conv)

lemma hosted_select_single_state: "hosted_select_single x h = (r, h') \<Longrightarrow> h' = h"
  by (auto simp: hosted_select_single_def split: sum.splits)

lemma hosted_getUserWithProfile_db:
  assumes "getUser_reads auth"
  shows "h_db (backend (snd (getUserWithProfile (hosted auth) x w))) = h_db (backend w)"
  using assms
  by (auto simp: getUserWithProfile_def await_def console_error_def hosted_fields
           split: prod.splits outcome.splits option.splits
           dest: getUser_reads_db hosted_select_single_state)

lemma hosted_getCurrentUser_db:
  assumes "getUser_reads auth"
  shows "h_db (backend (snd (getCurrentUser (hosted auth) w))) = h_db (backend w)"
  using assms hosted_getUserWithProfile_db[OF assms]
  by (auto simp: getCurrentUser_def await_def console_error_def hosted_fields
           split: prod.splits outcome.splits option.splits
           dest: getUser_reads_db)

lemma hosted_select_refused:
  "h_uid h = Some x \<Longrightarrow>
   hosted_select_single y h = (Resolved (None, Some (PostgrestError Policy_recursion)), h)"
  by (simp add: hosted_select_single_def select_authenticated)

lemma hosted_update_refused:
  "h_uid h = Some x \<Longrightarrow>
   hosted_update s y h = (Resolved ((), Some (PostgrestError Policy_recursion)), h)"
  by (simp add: hosted_update_def update_authenticated)

lemma hosted_fetch_refused:
  assumes g: "auth_getUser auth (backend wh) = (Resolved (Some u, None), h)"
    and uid: "h_uid h = Some x"
  shows "getUserWithProfile (hosted auth) y wh =
           (Some (as_AuthUser u None),
            console_error ''Profile fetch error:'' (Some (PostgrestError Policy_recursion))
              (wh\<lparr>backend := h\<rparr>))"
  using g uid
  by (simp add: getUserWithProfile_def await_def hosted_fields hosted_select_refused[OF uid])

lemma updateProfile_no_user:
  assumes "fst (getCurrentUser supabase w) = None"
  shows "updateProfile supabase updates w =
           (Some (Error ''No authenticated user''), snd (getCurrentUser supabase w))"
  using assms by (cases "getCurrentUser supabase w") (simp add: updateProfile_def)

lemma updateProfile_refused:
  assumes g: "getCurrentUser (hosted auth) wh = (Some u, w1)"
    and uid: "h_uid (backend w1) = Some x"
  shows "updateProfile (hosted auth) updates wh =
           (Some (PostgrestError Policy_recursion),
            console_error ''Profile update error:'' (Some (PostgrestError Policy_recursion)) w1)"
  using g
  by (simp add: updateProfile_def await_def hosted_fields hosted_update_refused[OF uid])

lemma carol_db_eq:
  "carol_db =
     \<lparr>auth_users = [alice, bob, carol_row],
      profiles = [\<lparr>p_id = ''a1'', p_email = ''alice@x.com'', p_full_name = Some ''Alice'',
                    p_avatar_url = None, p_role = Role_user, p_created_at = 10, p_updated_at = 10\<rparr>,
                  \<lparr>p_id = ''b2'', p_email = ''bob@x.com'', p_full_name = Some '''',
                    p_avatar_url = None, p_role = Role_admin, p_created_at = 20, p_updated_at = 20\<rparr>,
                  carol_stored]\<rparr>"
  by (simp add: carol_db_def example_db_eq)

lemma carol_inserted: "insert_auth_user carol_row example_db 30 = Inr carol_db"
  by (simp add: carol_db_eq example_db_eq db_defs alice_def bob_def carol_row_def carol_stored_def)

lemma carol_getUser:
  "auth_getUser (scripted all_ok) (backend hosted_world) =
     (Resolved (Some carol, None), backend hosted_world)"
  by (simp add: scripted_def all_ok_def)

text \<open>
  Claim C3, where the migration fails it. For a sign-up without a role, every request
  \<^verbatim>\<open>signUp\<close> sends carries the role \<^verbatim>\<open>user\<close> (in \<^verbatim>\<open>options.data\<close> and in the row to
  insert). When the provider inserts a user row whose metadata is the \<^verbatim>\<open>options.data\<close> of
  that request, the trigger stores one profile for the user, with role \<^verbatim>\<open>user\<close>. But the
  fetch of that profile by the user is refused: the select policies are rewritten into the
  select, the admin policy selects from \<^verbatim>\<open>profiles\<close>, and the statement fails with 42P17;
  \<^verbatim>\<open>getUserWithProfile\<close>, whenever the provider answers with a user and the request carries
  the id of some authenticated user, logs the error and returns the user without a profile, so
  without a role. A label the cast of the trigger accepts is one of \<^verbatim>\<open>user\<close>,
  \<^verbatim>\<open>admin\<close>, \<^verbatim>\<open>instructor\<close>, and a user row with any other role label is not inserted.
\<close>

theorem signUp_default_role_fetch_refused:
  assumes "su_role data = None"
  shows "(\<forall>ev\<in>set (trace (snd (signUp (recording base) data (fresh w)))).
            case fst ev of
              Call_signUp c \<Rightarrow> map_of (c_options_data c) ''role'' = Some ''user''
            | Call_insert v \<Rightarrow> i_role v = Role_user
            | _ \<Rightarrow> False)
       \<and> (\<forall>row db now db'.
            u_raw_user_meta_data row = c_options_data (signUp_credentials data)
              \<and> insert_auth_user row db now = Inr db' \<longrightarrow>
            (\<exists>r. filter (eq_id (u_id row)) (profiles db') = [r] \<and> p_role r = Role_user)
            \<and> select_profiles_as (Some (u_id row)) (profiles db') (eq_id (u_id row))
                = Inl Policy_recursion)
       \<and> (\<forall>auth wh usr h x y.
            auth_getUser auth (backend wh) = (Resolved (Some usr, None), h) \<and> h_uid h = Some x \<longrightarrow>
            getUserWithProfile (hosted auth) y wh =
              (Some (as_AuthUser usr None),
               console_error ''Profile fetch error:'' (Some (PostgrestError Policy_recursion))
                 (wh\<lparr>backend := h\<rparr>)))
       \<and> (\<forall>s. cast_user_role s \<noteq> None \<longleftrightarrow> s \<in> {''user'', ''admin'', ''instructor''})
       \<and> (\<forall>row db now s.
            map_of (u_raw_user_meta_data row) ''role'' = Some s \<and> cast_user_role s = None \<longrightarrow>
            (\<exists>e. insert_auth_user row db now = Inl e))"
proof -
  have f: "\<forall>row db now db'.
            u_raw_user_meta_data row = c_options_data (signUp_credentials data)
              \<and> insert_auth_user row db now = Inr db' \<longrightarrow>
            (\<exists>r. filter (eq_id (u_id row)) (profiles db') = [r] \<and> p_role r = Role_user)
            \<and> select_profiles_as (Some (u_id row)) (profiles db') (eq_id (u_id row))
                = Inl Policy_recursion"
    using stored_role_user[OF assms] select_authenticated by blast
  have g: "\<forall>auth wh usr h x y.
            auth_getUser auth (backend wh) = (Resolved (Some usr, None), h) \<and> h_uid h = Some x \<longrightarrow>
            getUserWithProfile (hosted auth) y wh =
              (Some (as_AuthUser usr None),
               console_error ''Profile fetch error:'' (Some (PostgrestError Policy_recursion))
                 (wh\<lparr>backend := h\<rparr>))"
    by (intro allI impI, elim conjE) (rule hosted_fetch_refused)
  have c: "\<forall>s. cast_user_role s \<noteq> None \<longleftrightarrow> s \<in> {''user'', ''admin'', ''instructor''}"
    by (intro allI) (rule cast_user_role_labels)
  have b: "\<forall>row db now s.
            map_of (u_raw_user_meta_data row) ''role'' = Some s \<and> cast_user_role s = None \<longrightarrow>
            (\<exists>e. insert_auth_user row db now = Inl e)"
    by (intro allI impI, elim conjE) (rule insert_auth_user_bad_role)
  from signUp_trace_default_role[OF assms] f g c b show ?thesis
    by (intro conjI)
qed

theorem signUp_default_role_fetch_refused_witness:
  "su_role carol_signup = None
   \<and> trace (snd (signUp (recording (scripted all_ok)) carol_signup (fresh world0))) =
       [(Call_signUp \<lparr>c_email = ''carol@x.com'', c_password = ''secret1'',
                      c_options_data = [(''full_name'', ''Carol''), (''role'', ''user'')]\<rparr>, None),
        (Call_insert carol_insert, None)]
   \<and> u_raw_user_meta_data carol_row = c_options_data (signUp_credentials carol_signup)
   \<and> insert_auth_user carol_row example_db 30 = Inr carol_db
   \<and> filter (eq_id ''c3'') (profiles carol_db) = [carol_stored]
   \<and> p_role carol_stored = Role_user
   \<and> select_profiles_as (Some ''c3'') (profiles carol_db) (eq_id ''c3'') = Inl Policy_recursion
   \<and> h_uid (backend hosted_world) = Some ''c3''
   \<and> getUserWithProfile (hosted (scripted all_ok)) ''c3'' hosted_world =
       (Some \<lparr>user_id = ''c3'', user_email = Some ''carol@x.com'', profile = None\<rparr>,
        hosted_world\<lparr>console :=
          [Console_error ''Profile fetch error:'' (Some (PostgrestError Policy_recursion))]\<rparr>)"
proof -
  have n: "su_role carol_signup = None" by (simp add: carol_signup_def)
  have t: "trace (snd (signUp (recording (scripted all_ok)) carol_signup (fresh world0))) =
       [(Call_signUp \<lparr>c_email = ''carol@x.com'', c_password = ''secret1'',
                      c_options_data = [(''full_name'', ''Carol''), (''role'', ''user'')]\<rparr>, None),
        (Call_insert carol_insert, None)]"
    by (simp add: signUp_def recording_simps await_observe trace_def fresh_def
        scripted_def all_ok_def failure_def signUp_credentials_def signUp_profile_row_def
        options_data_def role_or_default_def or_null_def carol_def world0_def carol_signup_def
        carol_insert_def)
  have m: "u_raw_user_meta_data carol_row = c_options_data (signUp_credentials carol_signup)"
    by (simp add: carol_row_def signUp_credentials_def options_data_def role_or_default_def
          carol_signup_def)
  have uid: "h_uid (backend hosted_world) = Some ''c3''"
    by (simp add: hosted_world_def)
  have fl: "filter (eq_id ''c3'') (profiles carol_db) = [carol_stored]"
    by (simp add: carol_db_eq eq_id_def carol_stored_def)
  have r: "p_role carol_stored = Role_user" by (simp add: carol_stored_def)
  note th = signUp_default_role_fetch_refused[OF n, of "scripted all_ok :: unit supabase" world0]
  from th[THEN conjunct2, THEN conjunct1, rule_format, OF conjI[OF m carol_inserted]]
  have s: "select_profiles_as (Some ''c3'') (profiles carol_db) (eq_id ''c3'') = Inl Policy_recursion"
    by (simp add: carol_row_def)
  from th[THEN conjunct2, THEN conjunct2, THEN conjunct1, rule_format,
      OF conjI[OF carol_getUser uid], of "''c3''"]
  have g: "getUserWithProfile (hosted (scripted all_ok)) ''c3'' hosted_world =
       (Some \<lparr>user_id = ''c3'', user_email = Some ''carol@x.com'', profile = None\<rparr>,
        hosted_world\<lparr>console :=
          [Console_error ''Profile fetch error:'' (Some (PostgrestError Policy_recursion))]\<rparr>)"
    by (simp add: console_error_def hosted_world_def as_AuthUser_def carol_def)
  from n t m carol_inserted fl r s uid g show ?thesis by (intro conjI)
qed

text \<open>
  Claim C4, where the migration fails it. When \<^verbatim>\<open>getCurrentUser\<close> finds no user,
  \<^verbatim>\<open>updateProfile\<close> returns the error \<^verbatim>\<open>No authenticated user\<close>, made by the client, and
  sends nothing after the reads of \<^verbatim>\<open>getCurrentUser\<close>: on the hosted backend every row of
  \<^verbatim>\<open>profiles\<close> is as before. But when it finds a user and the request carries the id of
  an authenticated user, the update is refused: the update and select policies are rewritten
  into the statement, the admin policies select from \<^verbatim>\<open>profiles\<close>, and the statement
  fails with 42P17; \<^verbatim>\<open>updateProfile\<close> logs that error and returns it, and no row is
  updated and no \<^verbatim>\<open>updated_at\<close> is set.
\<close>

theorem updateProfile_authenticated_refused:
  "(fst (getCurrentUser supabase w) = None \<longrightarrow>
      updateProfile supabase updates w =
        (Some (Error ''No authenticated user''), snd (getCurrentUser supabase w)))
   \<and> (getUser_reads auth \<and> fst (getCurrentUser (hosted auth) wh) = None \<longrightarrow>
        fst (updateProfile (hosted auth) updates wh) = Some (Error ''No authenticated user'')
        \<and> h_db (backend (snd (updateProfile (hosted auth) updates wh))) = h_db (backend wh))
   \<and> (getCurrentUser (hosted auth) wh = (Some u, w1) \<and> h_uid (backend w1) = Some x \<longrightarrow>
        updateProfile (hosted auth) updates wh =
          (Some (PostgrestError Policy_recursion),
           console_error ''Profile update error:'' (Some (PostgrestError Policy_recursion)) w1))"
proof (intro conjI impI)
  assume "fst (getCurrentUser supabase w) = None"
  then show "updateProfile supabase updates w =
        (Some (Error ''No authenticated user''), snd (getCurrentUser supabase w))"
    by (rule updateProfile_no_user)
next
  assume a: "getUser_reads auth \<and> fst (getCurrentUser (hosted auth) wh) = None"
  then show "fst (updateProfile (hosted auth) updates wh) = Some (Error ''No authenticated user'')"
    by (simp add: updateProfile_no_user)
  from a show "h_db (backend (snd (updateProfile (hosted auth) updates wh))) = h_db (backend wh)"
    by (simp add: updateProfile_no_user hosted_getCurrentUser_db)
next
  assume "getCurrentUser (hosted auth) wh = (Some u, w1) \<and> h_uid (backend w1) = Some x"
  then show "updateProfile (hosted auth) updates wh =
          (Some (PostgrestError Policy_recursion),
           console_error ''Profile update error:'' (Some (PostgrestError Policy_recursion)) w1)"
    by (auto intro: updateProfile_refused)
qed

theorem updateProfile_authenticated_refused_witness:
  "getUser_reads (scripted signed_out :: unit hosted supabase)
   \<and> fst (getCurrentUser (hosted (scripted signed_out)) hosted_world) = None
   \<and> fst (updateProfile (hosted (scripted signed_out)) new_name hosted_world)
       = Some (Error ''No authenticated user'')
   \<and> h_db (backend (snd (updateProfile (hosted (scripted signed_out)) new_name hosted_world))) = carol_db
   \<and> filter (eq_id ''c3'') (profiles carol_db) = [carol_stored]
   \<and> h_uid (backend hosted_world) = Some ''c3''
   \<and> getCurrentUser (hosted (scripted all_ok)) hosted_world =
       (Some \<lparr>user_id = ''c3'', user_email = Some ''carol@x.com'', profile = None\<rparr>,
        hosted_world\<lparr>console :=
          [Console_error ''Profile fetch error:'' (Some (PostgrestError Policy_recursion))]\<rparr>)
   \<and> updateProfile (hosted (scripted all_ok)) new_name hosted_world =
       (Some (PostgrestError Policy_recursion),
        hosted_world\<lparr>console :=
          [Console_error ''Profile fetch error:'' (Some (PostgrestError Policy_recursion)),
           Console_error ''Profile update error:'' (Some (PostgrestError Policy_recursion))]\<rparr>)"
proof -
  let ?out = "scripted signed_out :: unit hosted supabase"
  let ?in = "scripted all_ok :: unit hosted supabase"
  let ?w1 = "hosted_world\<lparr>console :=
          [Console_error ''Profile fetch error:'' (Some (PostgrestError Policy_recursion))]\<rparr>"
  have r0: "getUser_reads ?out"
    by (simp add: getUser_reads_def scripted_def)
  have g0: "fst (getCurrentUser (hosted ?out) hosted_world) = None"
    by (simp add: getCurrentUser_def await_def hosted_fields scripted_def signed_out_def all_ok_def
          console_error_def)
  note th0 = updateProfile_authenticated_refused[where auth = ?out and wh = hosted_world
      and updates = new_name]
  from th0[THEN conjunct2, THEN conjunct1, rule_format, OF conjI[OF r0 g0]]
  have e0: "fst (updateProfile (hosted ?out) new_name hosted_world) = Some (Error ''No authenticated user'')"
    and d0: "h_db (backend (snd (updateProfile (hosted ?out) new_name hosted_world))) = carol_db"
    by (simp_all add: hosted_world_def)
  have fl: "filter (eq_id ''c3'') (profiles carol_db) = [carol_stored]"
    by (simp add: carol_db_eq eq_id_def carol_stored_def)
  have uid: "h_uid (backend hosted_world) = Some ''c3''"
    by (simp add: hosted_world_def)
  have uid1: "h_uid (backend ?w1) = Some ''c3''"
    by (simp add: hosted_world_def)
  have g1: "getCurrentUser (hosted ?in) hosted_world =
       (Some \<lparr>user_id = ''c3'', user_email = Some ''carol@x.com'', profile = None\<rparr>, ?w1)"
  proof -
    have "getCurrentUser (hosted ?in) hosted_world =
            getUserWithProfile (hosted ?in) ''c3'' hosted_world"
      by (simp add: getCurrentUser_def await_def hosted_fields carol_getUser carol_def)
    also have "\<dots> = (Some (as_AuthUser carol None),
            console_error ''Profile fetch error:'' (Some (PostgrestError Policy_recursion))
              (hosted_world\<lparr>backend := backend hosted_world\<rparr>))"
      by (rule hosted_fetch_refused[OF carol_getUser uid])
    finally show ?thesis
      by (simp add: console_error_def hosted_world_def as_AuthUser_def carol_def)
  qed
  note th1 = updateProfile_authenticated_refused[where auth = ?in and wh = hosted_world
      and updates = new_name and ?w1.0 = ?w1 and x = "''c3''"]
  from th1[THEN conjunct2, THEN conjunct2, rule_format, OF conjI[OF g1 uid1]]
  have e1: "updateProfile (hosted ?in) new_name hosted_world =
       (Some (PostgrestError Policy_recursion),
        hosted_world\<lparr>console :=
          [Console_error ''Profile fetch error:'' (Some (PostgrestError Policy_recursion)),
           Console_error ''Profile update error:'' (Some (PostgrestError Policy_recursion))]\<rparr>)"
    by (simp add: console_error_def)
  from r0 g0 e0 d0 fl uid g1 e1 show ?thesis by (intro conjI)
qed

section \<open>Results and requests of every operation\<close>
















end
